theory Spec2Isabelle
  imports Complex_Main "HOL-Library.Word" "HOL-Library.Char_ord" "HOL-Library.List_Lexorder"
begin

section \<open>The texture atlas generator\<close>

text \<open>
  A shallow embedding of \<^verbatim>\<open>src/resources/textures/atlas_generator.py\<close>: the class
  \<^verbatim>\<open>TextureAtlasBuilder\<close> with its constructor and \<^verbatim>\<open>create_atlas\<close>, and \<^verbatim>\<open>main\<close>.

  Python integers are \<open>int\<close>; \<^verbatim>\<open>//\<close> and \<^verbatim>\<open>%\<close> are \<open>div\<close> and \<open>mod\<close> on \<open>int\<close> (both
  round towards minus infinity), with the \<^verbatim>\<open>ZeroDivisionError\<close> written out. The true
  division \<^verbatim>\<open>/\<close> of two integers is the exact quotient in \<open>rat\<close> (Python returns the
  double nearest to it; rounding is monotone and keeps 0 and 1). \<^verbatim>\<open>math.sqrt\<close> is the
  real square root: the double computation has the same ceiling for every argument below
  \<open>2^52\<close>, and the argument is at most the length of a list held in memory.

  What the script asks of Pillow, \<^verbatim>\<open>os.path\<close> and \<^verbatim>\<open>glob\<close> is modelled as far as the script
  depends on it: an image is its size and its pixels, decoding a file is a function of the
  environment that may fail, and the content of a resampled tile is left to the environment.
  Writing the two output files (lines 101 to 110) is not part of the model: the result of
  \<open>create_atlas\<close> is the metadata it returns, the atlas buffer it would save, and the
  warnings it printed.
\<close>

subsection \<open>Errors\<close>

datatype error = ZeroDivisionError | ValueError

subsection \<open>Images\<close>

type_synonym rgba = "8 word \<times> 8 word \<times> 8 word \<times> 8 word"

record image =
  img_size :: "int \<times> int"
  img_pix :: "int \<times> int \<Rightarrow> rgba"

definition transparent :: rgba where
  "transparent = (0, 0, 0, 0)"

text \<open>\<^verbatim>\<open>Image.new('RGBA', size, color)\<close>: Pillow refuses a negative width or height with a
  \<^verbatim>\<open>ValueError\<close>.\<close>

definition Image_new :: "int \<times> int \<Rightarrow> rgba \<Rightarrow> error + image" where
  "Image_new sz color =
     (if fst sz < 0 \<or> snd sz < 0 then Inl ValueError
      else Inr \<lparr>img_size = sz, img_pix = (\<lambda>_. color)\<rparr>)"

text \<open>The pixel of a buffer at a coordinate, \<open>None\<close> outside the buffer.\<close>

definition pixel_at :: "image \<Rightarrow> int \<times> int \<Rightarrow> rgba option" where
  "pixel_at im p =
     (if 0 \<le> fst p \<and> fst p < fst (img_size im) \<and> 0 \<le> snd p \<and> snd p < snd (img_size im)
      then Some (img_pix im p) else None)"

text \<open>\<^verbatim>\<open>im.paste(src, (x, y))\<close> without a mask: the pixels of \<open>src\<close>, alpha included,
  replace those of \<open>im\<close> in the rectangle with upper left corner \<open>(x, y)\<close>, clipped to
  \<open>im\<close>.\<close>

definition paste :: "image \<Rightarrow> image \<Rightarrow> int \<times> int \<Rightarrow> image" where
  "paste im src box =
     im\<lparr>img_pix := (\<lambda>p.
        if fst box \<le> fst p \<and> fst p < fst box + fst (img_size src) \<and>
           snd box \<le> snd p \<and> snd p < snd box + snd (img_size src) \<and>
           0 \<le> fst p \<and> fst p < fst (img_size im) \<and>
           0 \<le> snd p \<and> snd p < snd (img_size im)
        then img_pix src (fst p - fst box, snd p - snd box)
        else img_pix im p)\<rparr>"

subsection \<open>The environment\<close>

text \<open>
  \<open>open_rgba\<close> is \<^verbatim>\<open>Image.open(f).convert('RGBA')\<close>, \<open>None\<close> when it raises;
  \<open>nearest\<close> gives the pixels of \<^verbatim>\<open>tex.resize(size, Image.NEAREST)\<close>;
  \<open>glob\<close> is \<^verbatim>\<open>glob.glob\<close>.
  Pillow rejects a target size below 1. With a builder made by the constructor the loop is
  reached only with a tile edge of at least 1: an edge of 0 fails in the constructor, a
  negative one at \<^verbatim>\<open>Image.new\<close>. So \<open>resize\<close> has no failing branch.
\<close>

record world =
  open_rgba :: "string \<Rightarrow> image option"
  nearest :: "image \<Rightarrow> int \<times> int \<Rightarrow> int \<times> int \<Rightarrow> rgba"
  glob :: "string \<Rightarrow> string list"

definition resize :: "world \<Rightarrow> image \<Rightarrow> int \<times> int \<Rightarrow> image" where
  "resize env tex sz = \<lparr>img_size = sz, img_pix = nearest env tex sz\<rparr>"

subsection \<open>Paths\<close>

text \<open>\<^verbatim>\<open>os.path.basename\<close> (POSIX): what follows the last slash.\<close>

definition basename :: "string \<Rightarrow> string" where
  "basename p = rev (takeWhile (\<lambda>c. c \<noteq> CHR ''/'') (rev p))"

text \<open>\<^verbatim>\<open>os.path.splitext(p)[0]\<close> for a \<open>p\<close> without slash: \<open>p\<close> up to its last dot, unless
  there is no dot or only dots come before it.\<close>

definition splitext_root :: "string \<Rightarrow> string" where
  "splitext_root p =
     (if CHR ''.'' \<notin> set p then p
      else let root = rev (tl (dropWhile (\<lambda>c. c \<noteq> CHR ''.'') (rev p)))
           in if \<forall>c \<in> set root. c = CHR ''.'' then p else root)"

text \<open>\<^verbatim>\<open>xs[:k]\<close>: a negative \<open>k\<close> counts from the end.\<close>

definition slice_to :: "'a list \<Rightarrow> int \<Rightarrow> 'a list" where
  "slice_to xs k = take (nat (if k < 0 then int (length xs) + k else k)) xs"

subsection \<open>The builder\<close>

record builder =
  texture_size :: int
  target_atlas_size :: int
  textures_per_row :: int
  max_textures :: int

definition TextureAtlasBuilder :: "int \<Rightarrow> int \<Rightarrow> error + builder" where
  "TextureAtlasBuilder texture_size' target_atlas_size' =
     (if texture_size' = 0 then Inl ZeroDivisionError
      else Inr \<lparr>texture_size = texture_size',
                target_atlas_size = target_atlas_size',
                textures_per_row = target_atlas_size' div texture_size',
                max_textures = (target_atlas_size' div texture_size')\<^sup>2\<rparr>)"

subsection \<open>Metadata\<close>

record uv_rect =
  uv_min :: "rat \<times> rat"
  uv_max :: "rat \<times> rat"

record entry =
  index :: int
  position :: "int \<times> int"
  uv :: uv_rect

record metadata =
  md_texture_size :: int
  md_atlas_size :: int
  md_textures_per_row :: int
  md_textures :: "string \<rightharpoonup> entry"

text \<open>What \<open>create_atlas\<close> prints about anomalies and about the grid's utilization; the
  other progress lines are left out.\<close>

datatype event =
  CapacityWarning int int
  | Utilization rat
  | LoadError string

record loop_state =
  st_atlas :: image
  st_metadata :: metadata
  st_log :: "event list"

record result =
  r_metadata :: metadata
  r_atlas :: image
  r_log :: "event list"

subsection \<open>create_atlas\<close>

text \<open>\<^verbatim>\<open>math.ceil(math.sqrt(n))\<close>; \<^verbatim>\<open>math.sqrt\<close> raises \<^verbatim>\<open>ValueError\<close> below zero.\<close>

definition math_ceil_sqrt :: "int \<Rightarrow> error + int" where
  "math_ceil_sqrt n = (if n < 0 then Inl ValueError else Inr \<lceil>sqrt (of_int n)\<rceil>)"

text \<open>
  The body of the loop of lines 58 to 99, for one texture. Whatever is raised inside the
  \<^verbatim>\<open>try\<close> is caught, printed, and the loop goes on: a file that does not decode, and the
  two divisions by zero that the enclosing function never lets happen (the second one
  after the paste).
\<close>

definition process_texture ::
  "world \<Rightarrow> builder \<Rightarrow> int \<Rightarrow> int \<Rightarrow> int \<Rightarrow> string \<Rightarrow> loop_state \<Rightarrow> loop_state" where
  "process_texture env self textures_per_side actual_atlas_size idx tex_file st =
     (case open_rgba env tex_file of
        None \<Rightarrow> st\<lparr>st_log := st_log st @ [LoadError tex_file]\<rparr>
      | Some tex0 \<Rightarrow>
          let tex = (if img_size tex0 \<noteq> (texture_size self, texture_size self)
                     then resize env tex0 (texture_size self, texture_size self)
                     else tex0)
          in if textures_per_side = 0
             then st\<lparr>st_log := st_log st @ [LoadError tex_file]\<rparr>
             else
               let row = idx div textures_per_side;
                   col = idx mod textures_per_side;
                   x = col * texture_size self;
                   y = row * texture_size self;
                   atlas = paste (st_atlas st) tex (x, y)
               in if actual_atlas_size = 0
                  then st\<lparr>st_atlas := atlas, st_log := st_log st @ [LoadError tex_file]\<rparr>
                  else
                    let uv_min_x = of_int x / of_int actual_atlas_size;
                        uv_min_y = of_int (actual_atlas_size - y - texture_size self)
                                     / of_int actual_atlas_size;
                        uv_max_x = of_int (x + texture_size self) / of_int actual_atlas_size;
                        uv_max_y = of_int (actual_atlas_size - y) / of_int actual_atlas_size;
                        tex_name = splitext_root (basename tex_file);
                        md = st_metadata st
                    in st\<lparr>st_atlas := atlas,
                          st_metadata := md\<lparr>md_textures := (md_textures md)(tex_name \<mapsto>
                             \<lparr>index = idx,
                              position = (x, y),
                              uv = \<lparr>uv_min = (uv_min_x, uv_min_y),
                                    uv_max = (uv_max_x, uv_max_y)\<rparr>\<rparr>)\<rparr>\<rparr>)"

text \<open>The loop: \<^verbatim>\<open>for idx, tex_file in enumerate(texture_files)\<close>.\<close>

definition paste_textures ::
  "world \<Rightarrow> builder \<Rightarrow> int \<Rightarrow> int \<Rightarrow> string list \<Rightarrow> loop_state \<Rightarrow> loop_state" where
  "paste_textures env self textures_per_side actual_atlas_size texture_files st =
     fold (\<lambda>(idx, tex_file).
             process_texture env self textures_per_side actual_atlas_size (int idx) tex_file)
          (enumerate 0 texture_files) st"

text \<open>Lines 28 to 34: the list and the count the rest of the function works with.\<close>

definition truncated_files :: "builder \<Rightarrow> string list \<Rightarrow> string list" where
  "truncated_files self texture_files =
     (if int (length texture_files) > max_textures self
      then slice_to texture_files (max_textures self) else texture_files)"

definition num_textures :: "builder \<Rightarrow> string list \<Rightarrow> int" where
  "num_textures self texture_files =
     (if int (length texture_files) > max_textures self
      then max_textures self else int (length texture_files))"

definition create_atlas :: "world \<Rightarrow> builder \<Rightarrow> string list \<Rightarrow> error + result" where
  "create_atlas env self texture_files =
     (let warning = (if int (length texture_files) > max_textures self
                     then [CapacityWarning (int (length texture_files)) (max_textures self)]
                     else []);
          texture_files' = truncated_files self texture_files;
          n = num_textures self texture_files
      in case math_ceil_sqrt n of
           Inl e \<Rightarrow> Inl e
         | Inr textures_per_side \<Rightarrow>
             let actual_atlas_size = textures_per_side * texture_size self
             in if textures_per_side\<^sup>2 = 0 then Inl ZeroDivisionError
                else
                  let utilization = of_int n / of_int (textures_per_side\<^sup>2) * 100
                  in case Image_new (actual_atlas_size, actual_atlas_size) transparent of
                       Inl e \<Rightarrow> Inl e
                     | Inr atlas \<Rightarrow>
                         let metadata = \<lparr>md_texture_size = texture_size self,
                                         md_atlas_size = actual_atlas_size,
                                         md_textures_per_row = textures_per_side,
                                         md_textures = Map.empty\<rparr>;
                             st = paste_textures env self textures_per_side actual_atlas_size
                                    texture_files'
                                    \<lparr>st_atlas = atlas, st_metadata = metadata,
                                     st_log = warning @ [Utilization utilization]\<rparr>
                         in Inr \<lparr>r_metadata = st_metadata st, r_atlas = st_atlas st,
                                 r_log = st_log st\<rparr>)"

subsection \<open>main\<close>

definition TEXTURE_SIZE :: int where "TEXTURE_SIZE = 16"
definition ATLAS_SIZE :: int where "ATLAS_SIZE = 1024"
definition INPUT_DIR :: string where "INPUT_DIR = ''resources/textures/raw_blocks''"

text \<open>\<^verbatim>\<open>os.path.join\<close> of a directory without trailing slash and a relative name.\<close>

definition path_join :: "string \<Rightarrow> string \<Rightarrow> string" where
  "path_join d f = d @ ''/'' @ f"

text \<open>The exit code of \<open>main\<close> and what \<open>create_atlas\<close> returned, if it was called.\<close>

definition main :: "world \<Rightarrow> error + (int \<times> result option)" where
  "main env =
     (let texture_files =
            concat (map (\<lambda>ext. glob env (path_join INPUT_DIR ext))
                        [''*.png'', ''*.jpg'', ''*.jpeg''])
      in if texture_files = [] then Inr (1, None)
         else
           let texture_files = sort texture_files
           in case TextureAtlasBuilder TEXTURE_SIZE ATLAS_SIZE of
                Inl e \<Rightarrow> Inl e
              | Inr builder \<Rightarrow>
                  (case create_atlas env builder texture_files of
                     Inl e \<Rightarrow> Inl e
                   | Inr metadata \<Rightarrow> Inr (0, Some metadata)))"

subsection \<open>Names for the parts of the loop body\<close>

text \<open>
  The expressions of lines 64 to 93 under names of their own, so that statements about
  \<open>create_atlas\<close> can speak of them: the identifier of line 85, the tile that is pasted
  (lines 64 to 66), the origin of a cell (lines 69 to 72) and the entry of lines 86 to 93.
  \<open>process_texture_ok\<close> below shows that the loop body computes exactly these.
\<close>

definition tex_name :: "string \<Rightarrow> string" where
  "tex_name tex_file = splitext_root (basename tex_file)"

definition tile_of :: "world \<Rightarrow> builder \<Rightarrow> image \<Rightarrow> image" where
  "tile_of env self tex0 =
     (if img_size tex0 \<noteq> (texture_size self, texture_size self)
      then resize env tex0 (texture_size self, texture_size self) else tex0)"

definition cell_origin :: "builder \<Rightarrow> int \<Rightarrow> int \<Rightarrow> int \<times> int" where
  "cell_origin self tps idx = ((idx mod tps) * texture_size self, (idx div tps) * texture_size self)"

definition in_cell :: "builder \<Rightarrow> int \<Rightarrow> int \<Rightarrow> int \<times> int \<Rightarrow> bool" where
  "in_cell self tps idx p \<longleftrightarrow>
     fst (cell_origin self tps idx) \<le> fst p \<and>
     fst p < fst (cell_origin self tps idx) + texture_size self \<and>
     snd (cell_origin self tps idx) \<le> snd p \<and>
     snd p < snd (cell_origin self tps idx) + texture_size self"

definition entry_of :: "builder \<Rightarrow> int \<Rightarrow> int \<Rightarrow> int \<Rightarrow> entry" where
  "entry_of self tps aas idx =
     \<lparr>index = idx,
      position = cell_origin self tps idx,
      uv = \<lparr>uv_min = (of_int (fst (cell_origin self tps idx)) / of_int aas,
                       of_int (aas - snd (cell_origin self tps idx) - texture_size self) / of_int aas),
            uv_max = (of_int (fst (cell_origin self tps idx) + texture_size self) / of_int aas,
                       of_int (aas - snd (cell_origin self tps idx)) / of_int aas)\<rparr>\<rparr>"

text \<open>The grid side of line 37, the state the loop starts from (lines 47 to 55) and the
  state it ends in.\<close>

definition grid_side :: "builder \<Rightarrow> string list \<Rightarrow> int" where
  "grid_side self fs = \<lceil>sqrt (of_int (num_textures self fs))\<rceil>"

definition start_state :: "builder \<Rightarrow> string list \<Rightarrow> loop_state" where
  "start_state self fs =
     \<lparr>st_atlas = \<lparr>img_size = (grid_side self fs * texture_size self,
                               grid_side self fs * texture_size self),
                   img_pix = (\<lambda>_. transparent)\<rparr>,
      st_metadata = \<lparr>md_texture_size = texture_size self,
                      md_atlas_size = grid_side self fs * texture_size self,
                      md_textures_per_row = grid_side self fs,
                      md_textures = Map.empty\<rparr>,
      st_log = (if int (length fs) > max_textures self
                then [CapacityWarning (int (length fs)) (max_textures self)] else [])
               @ [Utilization (of_int (num_textures self fs) / of_int ((grid_side self fs)\<^sup>2) * 100)]\<rparr>"

definition final_state :: "world \<Rightarrow> builder \<Rightarrow> string list \<Rightarrow> loop_state" where
  "final_state env self fs =
     paste_textures env self (grid_side self fs) (grid_side self fs * texture_size self)
       (truncated_files self fs) (start_state self fs)"

subsection \<open>Example inputs\<close>

text \<open>A world in which every file but \<^verbatim>\<open>raw/broken.png\<close> decodes to a red tile of 16 by 16
  pixels and the input directory is empty, and the builder of \<open>main\<close>.\<close>

definition red_tile :: image where
  "red_tile = \<lparr>img_size = (16, 16), img_pix = (\<lambda>_. (255, 0, 0, 255))\<rparr>"

definition example_world :: world where
  "example_world =
     \<lparr>open_rgba = (\<lambda>f. if f = ''raw/broken.png'' then None else Some red_tile),
      nearest = (\<lambda>tex sz p. img_pix tex (0, 0)),
      glob = (\<lambda>_. [])\<rparr>"

definition example_builder :: builder where
  "example_builder =
     \<lparr>texture_size = 16, target_atlas_size = 1024, textures_per_row = 64, max_textures = 4096\<rparr>"

definition five_files :: "string list" where
  "five_files = [''raw/a.png'', ''raw/b.png'', ''raw/c.png'', ''raw/d.png'', ''raw/e.png'']"

text \<open>A builder whose tile is larger than its target, one with room for four tiles, and
  six files.\<close>

definition tiny_builder :: builder where
  "tiny_builder =
     \<lparr>texture_size = 16, target_atlas_size = 8, textures_per_row = 0, max_textures = 0\<rparr>"

definition small_builder :: builder where
  "small_builder =
     \<lparr>texture_size = 16, target_atlas_size = 32, textures_per_row = 2, max_textures = 4\<rparr>"

definition six_files :: "string list" where
  "six_files = [''raw/a.png'', ''raw/b.png'', ''raw/c.png'', ''raw/d.png'', ''raw/e.png'',
                ''raw/f.png'']"

text \<open>Three files, the second of which does not decode.\<close>

definition three_files :: "string list" where
  "three_files = [''raw/a.png'', ''raw/broken.png'', ''raw/c.png'']"

text \<open>Two files with the same identifier.\<close>

definition collide_files :: "string list" where
  "collide_files = [''raw/a.jpg'', ''raw/a.png'']"

section \<open>Arithmetic of the grid\<close>

lemma div_times_le:
  fixes a b :: int
  assumes "0 < b"
  shows "a div b * b \<le> a"
proof -
  have "b * (a div b) + a mod b = a" by (rule mult_div_mod_eq)
  moreover have "0 \<le> a mod b" using assms by (rule pos_mod_sign)
  ultimately have "b * (a div b) \<le> a" by linarith
  then show ?thesis by (simp only: mult.commute)
qed

lemma div_ge_one:
  fixes a b :: int
  assumes "0 < b" "b \<le> a"
  shows "1 \<le> a div b"
  using zdiv_mono1[OF assms(2) assms(1)] assms(1) by simp

lemma cell_index:
  fixes k row col :: int
  assumes "0 \<le> col" "col < k" "0 \<le> row"
  shows "(row * k + col) div k = row" "(row * k + col) mod k = col"
  using assms by simp_all

lemma ceil_sqrt_upper: "0 \<le> n \<Longrightarrow> n \<le> \<lceil>sqrt (of_int n)\<rceil>\<^sup>2"
proof -
  assume n: "0 \<le> n"
  let ?x = "sqrt (of_int n)"
  have "0 \<le> ?x" using n by simp
  moreover have "?x \<le> of_int \<lceil>?x\<rceil>" by (rule le_of_int_ceiling)
  ultimately have "?x\<^sup>2 \<le> (of_int \<lceil>?x\<rceil>)\<^sup>2" by (rule power_mono[rotated])
  moreover have "?x\<^sup>2 = of_int n" using n by simp
  ultimately have "(of_int n :: real) \<le> of_int (\<lceil>?x\<rceil>\<^sup>2)" by simp
  then show ?thesis by (simp only: of_int_le_iff)
qed

lemma ceil_sqrt_pos: "1 \<le> n \<Longrightarrow> 1 \<le> \<lceil>sqrt (of_int n)\<rceil>"
proof -
  assume n: "1 \<le> n"
  have "1 \<le> sqrt (of_int n)" using n by simp
  then have "0 < sqrt (of_int n)" by linarith
  then show ?thesis by (simp add: ceiling_le_iff[symmetric] Suc_le_eq flip: zero_less_ceiling)
qed

lemma ceil_sqrt_lower: "1 \<le> n \<Longrightarrow> (\<lceil>sqrt (of_int n)\<rceil> - 1)\<^sup>2 < n"
proof -
  assume n: "1 \<le> n"
  let ?x = "sqrt (of_int n)"
  have k: "0 \<le> \<lceil>?x\<rceil> - 1" using ceil_sqrt_pos[OF n] by simp
  have "of_int (\<lceil>?x\<rceil> - 1) < ?x" by linarith
  moreover have "(0::real) \<le> of_int (\<lceil>?x\<rceil> - 1)" using k by (simp only: of_int_0_le_iff)
  ultimately have "(of_int (\<lceil>?x\<rceil> - 1))\<^sup>2 < ?x\<^sup>2" by (rule power_strict_mono) simp
  moreover have "?x\<^sup>2 = of_int n" using n by simp
  ultimately have "(of_int ((\<lceil>?x\<rceil> - 1)\<^sup>2) :: real) < of_int n" by simp
  then show ?thesis by (simp only: of_int_less_iff)
qed

lemma ceil_sqrt_unique:
  assumes "1 \<le> k" "(k - 1)\<^sup>2 < n" "n \<le> k\<^sup>2"
  shows "\<lceil>sqrt (of_int n)\<rceil> = k"
proof (rule ceiling_unique)
  have n: "0 \<le> n" using assms(2) zero_le_power2[of "k - 1"] by linarith
  have "sqrt (of_int ((k - 1)\<^sup>2)) < sqrt (of_int n)"
    using assms(2) by (simp only: real_sqrt_less_iff of_int_less_iff)
  moreover have "sqrt (of_int ((k - 1)\<^sup>2)) = of_int (k - 1)" using assms(1) by simp
  ultimately show "of_int k - 1 < sqrt (of_int n)" by simp
  have "sqrt (of_int n) \<le> sqrt (of_int (k\<^sup>2))"
    using assms(3) by (simp only: real_sqrt_le_iff of_int_le_iff)
  moreover have "sqrt (of_int (k\<^sup>2)) = of_int k" using assms(1) by simp
  ultimately show "sqrt (of_int n) \<le> of_int k" by simp
qed

lemma ceil_sqrt_square: "0 \<le> k \<Longrightarrow> \<lceil>sqrt (of_int (k\<^sup>2))\<rceil> = k"
  by simp

lemma ceil_sqrt_zero: "\<lceil>sqrt (of_int 0)\<rceil> = 0" by simp

section \<open>The loop\<close>

lemma tile_of_size: "img_size (tile_of env self tex0) = (texture_size self, texture_size self)"
  by (simp add: tile_of_def resize_def)

lemma process_texture_fail:
  "open_rgba env f = None \<Longrightarrow>
   process_texture env self tps aas idx f st = st\<lparr>st_log := st_log st @ [LoadError f]\<rparr>"
  by (simp add: process_texture_def)

lemma process_texture_ok:
  "open_rgba env f = Some tex0 \<Longrightarrow> tps \<noteq> 0 \<Longrightarrow> aas \<noteq> 0 \<Longrightarrow>
   process_texture env self tps aas idx f st =
     st\<lparr>st_atlas := paste (st_atlas st) (tile_of env self tex0) (cell_origin self tps idx),
        st_metadata := (st_metadata st)\<lparr>md_textures :=
           (md_textures (st_metadata st))(tex_name f \<mapsto> entry_of self tps aas idx)\<rparr>\<rparr>"
  by (simp add: process_texture_def tile_of_def cell_origin_def entry_of_def tex_name_def Let_def)

lemma paste_textures_Nil: "paste_textures env self tps aas [] st = st"
  by (simp add: paste_textures_def)

lemma paste_textures_snoc:
  "paste_textures env self tps aas (fs @ [f]) st =
   process_texture env self tps aas (int (length fs)) f (paste_textures env self tps aas fs st)"
  by (simp add: paste_textures_def enumerate_append_eq)

lemma process_texture_size:
  "img_size (st_atlas (process_texture env self tps aas idx f st)) = img_size (st_atlas st)"
  by (auto simp add: process_texture_def paste_def Let_def split: option.splits)

lemma loop_size:
  "img_size (st_atlas (paste_textures env self tps aas fs st)) = img_size (st_atlas st)"
proof (induction fs rule: rev_induct)
  case Nil
  show ?case by (simp add: paste_textures_Nil)
next
  case (snoc f fs)
  then show ?case
    by (simp add: paste_textures_snoc process_texture_size)
qed

lemma process_texture_md_fields:
  "md_texture_size (st_metadata (process_texture env self tps aas idx f st)) = md_texture_size (st_metadata st) \<and>
   md_atlas_size (st_metadata (process_texture env self tps aas idx f st)) = md_atlas_size (st_metadata st) \<and>
   md_textures_per_row (st_metadata (process_texture env self tps aas idx f st)) = md_textures_per_row (st_metadata st)"
  by (auto simp add: process_texture_def Let_def split: option.splits)

lemma loop_md_fields:
  "md_texture_size (st_metadata (paste_textures env self tps aas fs st)) = md_texture_size (st_metadata st) \<and>
   md_atlas_size (st_metadata (paste_textures env self tps aas fs st)) = md_atlas_size (st_metadata st) \<and>
   md_textures_per_row (st_metadata (paste_textures env self tps aas fs st)) = md_textures_per_row (st_metadata st)"
proof (induction fs rule: rev_induct)
  case Nil
  show ?case by (simp add: paste_textures_Nil)
next
  case (snoc f fs)
  then show ?case
    by (simp add: paste_textures_snoc process_texture_md_fields)
qed

lemma loop_log:
  assumes "tps \<noteq> 0" "aas \<noteq> 0"
  shows "st_log (paste_textures env self tps aas fs st) =
         st_log st @ map LoadError (filter (\<lambda>f. open_rgba env f = None) fs)"
proof (induction fs rule: rev_induct)
  case Nil
  show ?case by (simp add: paste_textures_Nil)
next
  case (snoc f fs)
  show ?case
  proof (cases "open_rgba env f")
    case None
    then show ?thesis using snoc by (simp add: paste_textures_snoc process_texture_fail)
  next
    case (Some t)
    then show ?thesis using snoc assms by (simp add: paste_textures_snoc process_texture_ok)
  qed
qed

lemma loop_textures_last:
  assumes "tps \<noteq> 0" "aas \<noteq> 0"
  shows "i < length fs \<Longrightarrow> open_rgba env (fs ! i) = Some t \<Longrightarrow>
         (\<forall>j. i < j \<and> j < length fs \<and> open_rgba env (fs ! j) \<noteq> None
               \<longrightarrow> tex_name (fs ! j) \<noteq> tex_name (fs ! i)) \<Longrightarrow>
         md_textures (st_metadata (paste_textures env self tps aas fs st)) (tex_name (fs ! i))
           = Some (entry_of self tps aas (int i))"
proof (induction fs rule: rev_induct)
  case Nil
  then show ?case by simp
next
  case (snoc f fs)
  show ?case
  proof (cases "i = length fs")
    case True
    then have "open_rgba env f = Some t" using snoc.prems(2) by simp
    then show ?thesis using True assms
      by (simp add: paste_textures_snoc process_texture_ok)
  next
    case False
    then have i: "i < length fs" using snoc.prems(1) by simp
    have nth: "(fs @ [f]) ! i = fs ! i" using i by (simp add: nth_append)
    have later: "\<forall>j. i < j \<and> j < length fs \<and> open_rgba env (fs ! j) \<noteq> None
                  \<longrightarrow> tex_name (fs ! j) \<noteq> tex_name (fs ! i)"
    proof (intro allI impI)
      fix j assume j: "i < j \<and> j < length fs \<and> open_rgba env (fs ! j) \<noteq> None"
      then have "i < j \<and> j < length (fs @ [f]) \<and> open_rgba env ((fs @ [f]) ! j) \<noteq> None"
        by (simp add: nth_append)
      then have "tex_name ((fs @ [f]) ! j) \<noteq> tex_name ((fs @ [f]) ! i)"
        using snoc.prems(3) by blast
      then show "tex_name (fs ! j) \<noteq> tex_name (fs ! i)" using j i by (simp add: nth_append)
    qed
    have IH: "md_textures (st_metadata (paste_textures env self tps aas fs st)) (tex_name (fs ! i))
           = Some (entry_of self tps aas (int i))"
      using snoc.IH[OF i] snoc.prems(2) later nth by simp
    show ?thesis
    proof (cases "open_rgba env f")
      case None
      then show ?thesis using IH nth by (simp add: paste_textures_snoc process_texture_fail)
    next
      case (Some u)
      have "i < length fs \<and> length fs < length (fs @ [f]) \<and> open_rgba env ((fs @ [f]) ! length fs) \<noteq> None"
        using i Some by simp
      then have "tex_name ((fs @ [f]) ! length fs) \<noteq> tex_name ((fs @ [f]) ! i)"
        using snoc.prems(3) by blast
      then have "tex_name f \<noteq> tex_name (fs ! i)" using nth by simp
      then show ?thesis using IH nth Some assms
        by (simp add: paste_textures_snoc process_texture_ok)
    qed
  qed
qed

lemma loop_textures_source:
  assumes "tps \<noteq> 0" "aas \<noteq> 0"
  shows "md_textures (st_metadata (paste_textures env self tps aas fs st)) name = Some e \<Longrightarrow>
         md_textures (st_metadata st) name = Some e \<or>
         (\<exists>i < length fs. open_rgba env (fs ! i) \<noteq> None \<and> tex_name (fs ! i) = name \<and>
              e = entry_of self tps aas (int i) \<and>
              (\<forall>j. i < j \<and> j < length fs \<and> open_rgba env (fs ! j) \<noteq> None
                    \<longrightarrow> tex_name (fs ! j) \<noteq> name))"
proof (induction fs arbitrary: e rule: rev_induct)
  case Nil
  then show ?case by (simp add: paste_textures_Nil)
next
  case (snoc f fs)
  show ?case
  proof (cases "open_rgba env f")
    case None
    then have "md_textures (st_metadata (paste_textures env self tps aas fs st)) name = Some e"
      using snoc.prems by (simp add: paste_textures_snoc process_texture_fail)
    from snoc.IH[OF this] show ?thesis
    proof
      assume "md_textures (st_metadata st) name = Some e" then show ?thesis by simp
    next
      assume "\<exists>i<length fs. open_rgba env (fs ! i) \<noteq> None \<and> tex_name (fs ! i) = name \<and>
              e = entry_of self tps aas (int i) \<and>
              (\<forall>j. i < j \<and> j < length fs \<and> open_rgba env (fs ! j) \<noteq> None
                    \<longrightarrow> tex_name (fs ! j) \<noteq> name)"
      then obtain i where i: "i < length fs" "open_rgba env (fs ! i) \<noteq> None" "tex_name (fs ! i) = name"
        "e = entry_of self tps aas (int i)"
        "\<forall>j. i < j \<and> j < length fs \<and> open_rgba env (fs ! j) \<noteq> None \<longrightarrow> tex_name (fs ! j) \<noteq> name"
        by blast
      have "\<forall>j. i < j \<and> j < length (fs @ [f]) \<and> open_rgba env ((fs @ [f]) ! j) \<noteq> None
                 \<longrightarrow> tex_name ((fs @ [f]) ! j) \<noteq> name"
        using i(5) None by (auto simp: nth_append less_Suc_eq)
      then show ?thesis using i(1-4) by (intro disjI2 exI[of _ i]) (simp add: nth_append)
    qed
  next
    case (Some u)
    show ?thesis
    proof (cases "tex_name f = name")
      case True
      then have "e = entry_of self tps aas (int (length fs))"
        using snoc.prems Some assms by (simp add: paste_textures_snoc process_texture_ok)
      then show ?thesis using True Some
        by (intro disjI2 exI[of _ "length fs"]) auto
    next
      case False
      then have "md_textures (st_metadata (paste_textures env self tps aas fs st)) name = Some e"
        using snoc.prems Some assms by (simp add: paste_textures_snoc process_texture_ok)
      from snoc.IH[OF this] show ?thesis
      proof
        assume "md_textures (st_metadata st) name = Some e" then show ?thesis by simp
      next
        assume "\<exists>i<length fs. open_rgba env (fs ! i) \<noteq> None \<and> tex_name (fs ! i) = name \<and>
              e = entry_of self tps aas (int i) \<and>
              (\<forall>j. i < j \<and> j < length fs \<and> open_rgba env (fs ! j) \<noteq> None
                    \<longrightarrow> tex_name (fs ! j) \<noteq> name)"
        then obtain i where i: "i < length fs" "open_rgba env (fs ! i) \<noteq> None" "tex_name (fs ! i) = name"
          "e = entry_of self tps aas (int i)"
          "\<forall>j. i < j \<and> j < length fs \<and> open_rgba env (fs ! j) \<noteq> None \<longrightarrow> tex_name (fs ! j) \<noteq> name"
          by blast
        have "\<forall>j. i < j \<and> j < length (fs @ [f]) \<and> open_rgba env ((fs @ [f]) ! j) \<noteq> None
                 \<longrightarrow> tex_name ((fs @ [f]) ! j) \<noteq> name"
          using i(5) False by (auto simp: nth_append less_Suc_eq)
        then show ?thesis using i(1-4) by (intro disjI2 exI[of _ i]) (simp add: nth_append)
      qed
    qed
  qed
qed

lemma loop_dom:
  assumes "tps \<noteq> 0" "aas \<noteq> 0"
  shows "dom (md_textures (st_metadata (paste_textures env self tps aas fs st))) =
         dom (md_textures (st_metadata st)) \<union> tex_name ` {f \<in> set fs. open_rgba env f \<noteq> None}"
proof (induction fs rule: rev_induct)
  case Nil
  show ?case by (simp add: paste_textures_Nil)
next
  case (snoc f fs)
  show ?case
  proof (cases "open_rgba env f")
    case None
    then have "{g \<in> set (fs @ [f]). open_rgba env g \<noteq> None} = {g \<in> set fs. open_rgba env g \<noteq> None}"
      by auto
    then show ?thesis using snoc None by (simp add: paste_textures_snoc process_texture_fail)
  next
    case (Some t)
    then have "{g \<in> set (fs @ [f]). open_rgba env g \<noteq> None} =
               insert f {g \<in> set fs. open_rgba env g \<noteq> None}"
      by auto
    moreover have "md_textures (st_metadata (paste_textures env self tps aas (fs @ [f]) st)) =
          (md_textures (st_metadata (paste_textures env self tps aas fs st)))
             (tex_name f \<mapsto> entry_of self tps aas (int (length fs)))"
      using Some assms by (simp add: paste_textures_snoc process_texture_ok)
    ultimately show ?thesis using snoc
      by (simp only: dom_fun_upd option.simps if_False image_insert Un_insert_right)
  qed
qed

lemma process_texture_atlas_fail:
  "open_rgba env f = None \<Longrightarrow> st_atlas (process_texture env self tps aas idx f st) = st_atlas st"
  by (simp add: process_texture_fail)

lemma process_texture_pix_outside:
  "\<not> in_cell self tps idx p \<Longrightarrow>
   img_pix (st_atlas (process_texture env self tps aas idx f st)) p = img_pix (st_atlas st) p"
  by (auto simp add: process_texture_def paste_def in_cell_def cell_origin_def resize_def Let_def
           split: option.splits)

lemma process_texture_pix_inside:
  assumes "open_rgba env f = Some t" "tps \<noteq> 0" "in_cell self tps idx p"
    and "0 \<le> fst p" "fst p < fst (img_size (st_atlas st))"
    and "0 \<le> snd p" "snd p < snd (img_size (st_atlas st))"
  shows "img_pix (st_atlas (process_texture env self tps aas idx f st)) p =
         img_pix (tile_of env self t)
           (fst p - fst (cell_origin self tps idx), snd p - snd (cell_origin self tps idx))"
  using assms
  by (auto simp add: process_texture_def paste_def in_cell_def cell_origin_def resize_def
        tile_of_def Let_def)

lemma loop_pix_outside:
  "(\<forall>i < length fs. open_rgba env (fs ! i) \<noteq> None \<longrightarrow> \<not> in_cell self tps (int i) p) \<Longrightarrow>
   img_pix (st_atlas (paste_textures env self tps aas fs st)) p = img_pix (st_atlas st) p"
proof (induction fs rule: rev_induct)
  case Nil
  show ?case by (simp add: paste_textures_Nil)
next
  case (snoc f fs)
  have "\<forall>i < length fs. open_rgba env (fs ! i) \<noteq> None \<longrightarrow> \<not> in_cell self tps (int i) p"
  proof (intro allI impI)
    fix i assume "i < length fs" "open_rgba env (fs ! i) \<noteq> None"
    then have "i < length (fs @ [f])" "open_rgba env ((fs @ [f]) ! i) \<noteq> None"
      by (simp_all add: nth_append)
    then show "\<not> in_cell self tps (int i) p" using snoc.prems by blast
  qed
  then have IH: "img_pix (st_atlas (paste_textures env self tps aas fs st)) p = img_pix (st_atlas st) p"
    by (rule snoc.IH)
  show ?case
  proof (cases "open_rgba env f")
    case None
    then show ?thesis using IH by (simp add: paste_textures_snoc process_texture_atlas_fail)
  next
    case (Some t)
    then have "length fs < length (fs @ [f])" "open_rgba env ((fs @ [f]) ! length fs) \<noteq> None"
      by simp_all
    then have "\<not> in_cell self tps (int (length fs)) p" using snoc.prems by blast
    then show ?thesis using IH by (simp add: paste_textures_snoc process_texture_pix_outside)
  qed
qed

lemma loop_pix_inside:
  assumes "tps \<noteq> 0"
    and "0 \<le> fst p" "fst p < fst (img_size (st_atlas st))"
    and "0 \<le> snd p" "snd p < snd (img_size (st_atlas st))"
  shows "i < length fs \<Longrightarrow> open_rgba env (fs ! i) = Some t \<Longrightarrow> in_cell self tps (int i) p \<Longrightarrow>
         (\<forall>j. i < j \<and> j < length fs \<longrightarrow> \<not> in_cell self tps (int j) p) \<Longrightarrow>
         img_pix (st_atlas (paste_textures env self tps aas fs st)) p =
         img_pix (tile_of env self t)
           (fst p - fst (cell_origin self tps (int i)), snd p - snd (cell_origin self tps (int i)))"
proof (induction fs rule: rev_induct)
  case Nil
  then show ?case by simp
next
  case (snoc f fs)
  show ?case
  proof (cases "i = length fs")
    case True
    then have "open_rgba env f = Some t" using snoc.prems(2) by simp
    then show ?thesis using True assms snoc.prems(3)
      by (simp add: paste_textures_snoc process_texture_pix_inside loop_size)
  next
    case False
    then have i: "i < length fs" using snoc.prems(1) by simp
    have "\<not> in_cell self tps (int (length fs)) p" using snoc.prems(4) i by simp
    moreover have "img_pix (st_atlas (paste_textures env self tps aas fs st)) p =
         img_pix (tile_of env self t)
           (fst p - fst (cell_origin self tps (int i)), snd p - snd (cell_origin self tps (int i)))"
      using snoc.IH[OF i] snoc.prems(2,3,4) i by (simp add: nth_append)
    ultimately show ?thesis by (simp add: paste_textures_snoc process_texture_pix_outside)
  qed
qed

lemma cell_div:
  fixes T c x :: int
  assumes "0 < T" "c * T \<le> x" "x < c * T + T"
  shows "x div T = c"
proof -
  have "x = c * T + (x - c * T)" by simp
  moreover have "0 \<le> x - c * T" "x - c * T < T" using assms by simp_all
  ultimately show ?thesis
    by (metis assms(1) div_pos_pos_trivial div_mult_self3 add.commute add.right_neutral less_irrefl)
qed

lemma in_cell_unique:
  assumes "0 < texture_size self" "in_cell self tps i p" "in_cell self tps j p"
  shows "i = j"
proof -
  have "fst p div texture_size self = i mod tps" "snd p div texture_size self = i div tps"
    using assms(1,2) by (auto simp: in_cell_def cell_origin_def intro!: cell_div)
  moreover have "fst p div texture_size self = j mod tps" "snd p div texture_size self = j div tps"
    using assms(1,3) by (auto simp: in_cell_def cell_origin_def intro!: cell_div)
  ultimately have "i mod tps = j mod tps" "i div tps = j div tps" by simp_all
  then show ?thesis by (metis mult_div_mod_eq)
qed

lemma cell_in_bounds:
  fixes T tps idx :: int
  assumes "0 < T" "0 < tps" "0 \<le> idx" "idx < tps\<^sup>2"
  shows "0 \<le> (idx mod tps) * T \<and> (idx mod tps) * T + T \<le> tps * T \<and>
         0 \<le> (idx div tps) * T \<and> (idx div tps) * T + T \<le> tps * T"
proof -
  have "idx mod tps < tps" using assms(2) by (rule pos_mod_bound)
  then have c: "0 \<le> idx mod tps" "idx mod tps + 1 \<le> tps"
    using pos_mod_sign[OF assms(2), of idx] by linarith+
  have r0: "0 \<le> idx div tps" using assms(2,3) by (simp add: pos_imp_zdiv_nonneg_iff)
  have lt: "idx < tps * tps" using assms(4) by (simp add: power2_eq_square)
  have "idx div tps < tps"
  proof (rule ccontr)
    assume "\<not> idx div tps < tps"
    then have "tps * tps \<le> tps * (idx div tps)" using assms(2) by (intro mult_left_mono) simp_all
    moreover have "tps * (idx div tps) + idx mod tps = idx" by (rule mult_div_mod_eq)
    ultimately show False using c(1) \<open>idx < tps * tps\<close> by linarith
  qed
  then have r1: "idx div tps + 1 \<le> tps" by simp
  have "(idx mod tps + 1) * T \<le> tps * T" using c(2) assms(1) by (intro mult_right_mono) simp_all
  moreover have "(idx div tps + 1) * T \<le> tps * T" using r1 assms(1) by (intro mult_right_mono) simp_all
  ultimately show ?thesis using c(1) r0 assms(1) by (simp add: algebra_simps)
qed

section \<open>The run of create_atlas\<close>

lemma builder_fields:
  assumes "TextureAtlasBuilder T A = Inr self"
  shows "texture_size self = T" "target_atlas_size self = A" "textures_per_row self = A div T"
    "max_textures self = (A div T)\<^sup>2" "T \<noteq> 0" "0 \<le> max_textures self"
  using assms by (auto simp: TextureAtlasBuilder_def split: if_splits)

lemma length_truncated:
  "0 \<le> max_textures self \<Longrightarrow> int (length (truncated_files self fs)) = num_textures self fs"
  by (simp add: truncated_files_def num_textures_def slice_to_def)

lemma truncated_take:
  "0 \<le> max_textures self \<Longrightarrow> truncated_files self fs = take (nat (num_textures self fs)) fs"
  by (simp add: truncated_files_def num_textures_def slice_to_def)

lemma grid_side_pos: "1 \<le> num_textures self fs \<Longrightarrow> 1 \<le> grid_side self fs"
  unfolding grid_side_def by (rule ceil_sqrt_pos)

lemma grid_side_fits: "0 \<le> num_textures self fs \<Longrightarrow> num_textures self fs \<le> (grid_side self fs)\<^sup>2"
  unfolding grid_side_def by (rule ceil_sqrt_upper)

lemma grid_side_tight: "1 \<le> num_textures self fs \<Longrightarrow> (grid_side self fs - 1)\<^sup>2 < num_textures self fs"
  unfolding grid_side_def by (rule ceil_sqrt_lower)

lemma create_atlas_run:
  assumes "1 \<le> num_textures self fs" "0 < texture_size self"
  shows "create_atlas env self fs =
           Inr \<lparr>r_metadata = st_metadata (final_state env self fs),
                r_atlas = st_atlas (final_state env self fs),
                r_log = st_log (final_state env self fs)\<rparr>"
proof -
  have k: "1 \<le> grid_side self fs" using assms(1) by (rule grid_side_pos)
  then have k2: "(grid_side self fs)\<^sup>2 \<noteq> 0" by simp
  have a: "\<not> grid_side self fs * texture_size self < 0"
    using k assms(2) by (simp add: mult_less_0_iff)
  have s: "math_ceil_sqrt (num_textures self fs) = Inr (grid_side self fs)"
    using assms(1) by (simp add: math_ceil_sqrt_def grid_side_def)
  show ?thesis
    unfolding create_atlas_def Let_def s sum.case
    using k2 a
    by (simp add: Image_new_def final_state_def start_state_def)
qed

lemma create_atlas_empty_grid:
  assumes "num_textures self fs = 0"
  shows "create_atlas env self fs = Inl ZeroDivisionError"
  using assms by (simp add: create_atlas_def math_ceil_sqrt_def Let_def)

lemma entry_of_simps:
  "index (entry_of self tps aas idx) = idx"
  "position (entry_of self tps aas idx) = ((idx mod tps) * texture_size self, (idx div tps) * texture_size self)"
  "uv_min (uv (entry_of self tps aas idx)) =
     (of_int ((idx mod tps) * texture_size self) / of_int aas,
      of_int (aas - (idx div tps) * texture_size self - texture_size self) / of_int aas)"
  "uv_max (uv (entry_of self tps aas idx)) =
     (of_int ((idx mod tps) * texture_size self + texture_size self) / of_int aas,
      of_int (aas - (idx div tps) * texture_size self) / of_int aas)"
  by (simp_all add: entry_of_def cell_origin_def)

lemma final_nonzero:
  assumes "0 < texture_size self" "1 \<le> num_textures self fs"
  shows "grid_side self fs \<noteq> 0" "grid_side self fs * texture_size self \<noteq> 0"
    "0 < grid_side self fs" "0 < grid_side self fs * texture_size self"
  using grid_side_pos[OF assms(2)] assms(1) by simp_all

lemma final_fields:
  "md_texture_size (st_metadata (final_state env self fs)) = texture_size self"
  "md_atlas_size (st_metadata (final_state env self fs)) = grid_side self fs * texture_size self"
  "md_textures_per_row (st_metadata (final_state env self fs)) = grid_side self fs"
  "img_size (st_atlas (final_state env self fs)) =
     (grid_side self fs * texture_size self, grid_side self fs * texture_size self)"
  by (simp_all add: final_state_def loop_md_fields loop_size start_state_def)

lemma final_entry:
  assumes "0 < texture_size self" "1 \<le> num_textures self fs"
    and "md_textures (st_metadata (final_state env self fs)) name = Some e"
  shows "\<exists>i < length (truncated_files self fs).
            open_rgba env (truncated_files self fs ! i) \<noteq> None \<and>
            tex_name (truncated_files self fs ! i) = name \<and>
            e = entry_of self (grid_side self fs) (grid_side self fs * texture_size self) (int i) \<and>
            (\<forall>j. i < j \<and> j < length (truncated_files self fs) \<and>
                  open_rgba env (truncated_files self fs ! j) \<noteq> None
                  \<longrightarrow> tex_name (truncated_files self fs ! j) \<noteq> name)"
proof -
  have "md_textures (st_metadata (start_state self fs)) name \<noteq> Some e"
    by (simp add: start_state_def)
  then show ?thesis
    using loop_textures_source[OF final_nonzero(1,2)[OF assms(1,2)], of env self
        "truncated_files self fs" "start_state self fs" name e] assms(3)
    unfolding final_state_def by blast
qed

lemma final_last:
  assumes "0 < texture_size self" "1 \<le> num_textures self fs"
    and "i < length (truncated_files self fs)"
    and "open_rgba env (truncated_files self fs ! i) = Some t"
    and "\<forall>j. i < j \<and> j < length (truncated_files self fs) \<and>
                  open_rgba env (truncated_files self fs ! j) \<noteq> None
                  \<longrightarrow> tex_name (truncated_files self fs ! j) \<noteq> tex_name (truncated_files self fs ! i)"
  shows "md_textures (st_metadata (final_state env self fs)) (tex_name (truncated_files self fs ! i)) =
         Some (entry_of self (grid_side self fs) (grid_side self fs * texture_size self) (int i))"
  unfolding final_state_def
  by (rule loop_textures_last[OF final_nonzero(1,2)[OF assms(1,2)] assms(3,4,5)])

lemma final_dom:
  assumes "0 < texture_size self" "1 \<le> num_textures self fs"
  shows "dom (md_textures (st_metadata (final_state env self fs))) =
         tex_name ` {f \<in> set (truncated_files self fs). open_rgba env f \<noteq> None}"
  unfolding final_state_def loop_dom[OF final_nonzero(1,2)[OF assms(1,2)]]
  by (simp add: start_state_def)

lemma final_log:
  assumes "0 < texture_size self" "1 \<le> num_textures self fs"
  shows "st_log (final_state env self fs) =
         st_log (start_state self fs) @
         map LoadError (filter (\<lambda>f. open_rgba env f = None) (truncated_files self fs))"
  unfolding final_state_def
  by (rule loop_log[OF final_nonzero(1,2)[OF assms(1,2)]])

lemma index_in_grid:
  assumes "0 \<le> max_textures self" "1 \<le> num_textures self fs"
    and "i < length (truncated_files self fs)"
  shows "int i < num_textures self fs" "int i < (grid_side self fs)\<^sup>2"
proof -
  show "int i < num_textures self fs" using assms(3) length_truncated[OF assms(1), of fs] by simp
  then show "int i < (grid_side self fs)\<^sup>2"
    using grid_side_fits[of self fs] assms(2) by simp
qed

lemma final_cell_bounds:
  assumes "0 \<le> max_textures self" "0 < texture_size self" "1 \<le> num_textures self fs"
    and "i < length (truncated_files self fs)"
  shows "0 \<le> (int i mod grid_side self fs) * texture_size self \<and>
         (int i mod grid_side self fs) * texture_size self + texture_size self
            \<le> grid_side self fs * texture_size self \<and>
         0 \<le> (int i div grid_side self fs) * texture_size self \<and>
         (int i div grid_side self fs) * texture_size self + texture_size self
            \<le> grid_side self fs * texture_size self"
  by (rule cell_in_bounds[OF assms(2) final_nonzero(3)[OF assms(2,3)] _
        index_in_grid(2)[OF assms(1,3,4)]]) simp

lemma in_cell_offset:
  assumes "0 \<le> dx" "dx < texture_size self" "0 \<le> dy" "dy < texture_size self"
  shows "in_cell self tps idx ((idx mod tps) * texture_size self + dx, (idx div tps) * texture_size self + dy)"
  using assms by (simp add: in_cell_def cell_origin_def)

lemma final_pix_tile:
  assumes "0 \<le> max_textures self" "0 < texture_size self" "1 \<le> num_textures self fs"
    and "i < length (truncated_files self fs)"
    and "open_rgba env (truncated_files self fs ! i) = Some t"
    and "0 \<le> dx" "dx < texture_size self" "0 \<le> dy" "dy < texture_size self"
  shows "pixel_at (st_atlas (final_state env self fs))
           ((int i mod grid_side self fs) * texture_size self + dx,
            (int i div grid_side self fs) * texture_size self + dy)
         = Some (img_pix (tile_of env self t) (dx, dy))"
proof -
  let ?k = "grid_side self fs" and ?T = "texture_size self"
  let ?p = "((int i mod ?k) * ?T + dx, (int i div ?k) * ?T + dy)"
  have cell: "in_cell self ?k (int i) ?p" using assms(6-9) by (rule in_cell_offset)
  have b: "0 \<le> fst ?p" "fst ?p < ?k * ?T" "0 \<le> snd ?p" "snd ?p < ?k * ?T"
    using final_cell_bounds[OF assms(1-4)] assms(6-9) by simp_all
  have others: "\<forall>j. i < j \<and> j < length (truncated_files self fs) \<longrightarrow> \<not> in_cell self ?k (int j) ?p"
    using in_cell_unique[OF assms(2) cell] by fastforce
  have "img_pix (st_atlas (final_state env self fs)) ?p =
        img_pix (tile_of env self t)
          (fst ?p - fst (cell_origin self ?k (int i)), snd ?p - snd (cell_origin self ?k (int i)))"
    unfolding final_state_def
    by (rule loop_pix_inside[OF final_nonzero(1)[OF assms(2,3)] _ _ _ _ assms(4,5) cell others])
       (use b in \<open>simp_all add: start_state_def\<close>)
  then show ?thesis using b by (simp add: pixel_at_def final_fields cell_origin_def)
qed

lemma final_pix_blank:
  assumes "0 \<le> max_textures self" "0 < texture_size self" "1 \<le> num_textures self fs"
    and "i < length (truncated_files self fs)"
    and "open_rgba env (truncated_files self fs ! i) = None"
    and "0 \<le> dx" "dx < texture_size self" "0 \<le> dy" "dy < texture_size self"
  shows "pixel_at (st_atlas (final_state env self fs))
           ((int i mod grid_side self fs) * texture_size self + dx,
            (int i div grid_side self fs) * texture_size self + dy)
         = Some transparent"
proof -
  let ?k = "grid_side self fs" and ?T = "texture_size self"
  let ?p = "((int i mod ?k) * ?T + dx, (int i div ?k) * ?T + dy)"
  have cell: "in_cell self ?k (int i) ?p" using assms(6-9) by (rule in_cell_offset)
  have b: "0 \<le> fst ?p" "fst ?p < ?k * ?T" "0 \<le> snd ?p" "snd ?p < ?k * ?T"
    using final_cell_bounds[OF assms(1-4)] assms(6-9) by simp_all
  have others: "\<forall>j < length (truncated_files self fs).
          open_rgba env (truncated_files self fs ! j) \<noteq> None \<longrightarrow> \<not> in_cell self ?k (int j) ?p"
  proof (intro allI impI notI)
    fix j assume "open_rgba env (truncated_files self fs ! j) \<noteq> None" "in_cell self ?k (int j) ?p"
    then show False using in_cell_unique[OF assms(2) cell, of "int j"] assms(5) by simp
  qed
  have "img_pix (st_atlas (final_state env self fs)) ?p = img_pix (st_atlas (start_state self fs)) ?p"
    unfolding final_state_def by (rule loop_pix_outside[OF others])
  then show ?thesis using b by (simp add: pixel_at_def final_fields start_state_def)
qed

lemma unit_fraction:
  fixes a b :: int
  assumes "0 < b" "0 \<le> a" "a \<le> b"
  shows "0 \<le> (of_int a / of_int b :: rat)" "(of_int a / of_int b :: rat) \<le> 1"
  using assms by simp_all

lemma process_texture_log_prefix:
  "process_texture env self tps aas idx f (st\<lparr>st_log := l @ st_log st\<rparr>) =
   (process_texture env self tps aas idx f st)
     \<lparr>st_log := l @ st_log (process_texture env self tps aas idx f st)\<rparr>"
  by (auto simp add: process_texture_def Let_def split: option.splits)

lemma loop_log_prefix:
  "paste_textures env self tps aas fs (st\<lparr>st_log := l @ st_log st\<rparr>) =
   (paste_textures env self tps aas fs st)
     \<lparr>st_log := l @ st_log (paste_textures env self tps aas fs st)\<rparr>"
proof (induction fs rule: rev_induct)
  case Nil
  show ?case by (simp add: paste_textures_Nil)
next
  case (snoc f fs)
  show ?case
    unfolding paste_textures_snoc snoc.IH by (rule process_texture_log_prefix)
qed

text \<open>
  What the truncation of lines 30 to 34 does when there is room for at least one tile: the
  run on the whole list is the run on its first \<open>max_textures\<close> files, with the capacity
  warning printed first.
\<close>

lemma truncation_facts:
  assumes "0 \<le> max_textures self" "max_textures self < int (length fs)"
  shows "num_textures self fs = max_textures self"
    "truncated_files self fs = take (nat (max_textures self)) fs"
    "num_textures self (take (nat (max_textures self)) fs) = max_textures self"
    "truncated_files self (take (nat (max_textures self)) fs) = take (nat (max_textures self)) fs"
  using assms by (simp_all add: num_textures_def truncated_files_def slice_to_def min_def)

lemma truncation_keeps_prefix:
  assumes "TextureAtlasBuilder T A = Inr self" and "0 < T" and "1 \<le> max_textures self"
    and "max_textures self < int (length fs)"
  shows "\<exists>r r'. create_atlas env self fs = Inr r \<and>
           create_atlas env self (take (nat (max_textures self)) fs) = Inr r' \<and>
           r_metadata r = r_metadata r' \<and> r_atlas r = r_atlas r' \<and>
           r_log r = CapacityWarning (int (length fs)) (max_textures self) # r_log r'"
proof -
  let ?fs = "take (nat (max_textures self)) fs"
  let ?w = "CapacityWarning (int (length fs)) (max_textures self)"
  have T: "texture_size self = T" using builder_fields[OF assms(1)] by simp
  have pos: "0 < texture_size self" using assms(2) T by simp
  have cap: "0 \<le> max_textures self" using assms(3) by simp
  note tf = truncation_facts[OF cap assms(4)]
  have n: "1 \<le> num_textures self fs" "1 \<le> num_textures self ?fs" using tf assms(3) by simp_all
  have k: "grid_side self ?fs = grid_side self fs" by (simp add: grid_side_def tf)
  have short: "\<not> max_textures self < int (length ?fs)" using assms(4) cap by simp
  have "start_state self fs = (start_state self ?fs)\<lparr>st_log := [?w] @ st_log (start_state self ?fs)\<rparr>"
    using assms(4) short by (simp add: start_state_def k tf)
  then have "final_state env self fs =
        (final_state env self ?fs)\<lparr>st_log := [?w] @ st_log (final_state env self ?fs)\<rparr>"
    unfolding final_state_def k tf by (simp only: loop_log_prefix)
  then have "st_metadata (final_state env self fs) = st_metadata (final_state env self ?fs)"
    "st_atlas (final_state env self fs) = st_atlas (final_state env self ?fs)"
    "st_log (final_state env self fs) = ?w # st_log (final_state env self ?fs)"
    by simp_all
  then show ?thesis
    using create_atlas_run[OF n(1) pos, of env] create_atlas_run[OF n(2) pos, of env] by simp
qed

lemma nonempty_run:
  assumes "0 \<le> max_textures self" "i < length (truncated_files self fs)"
  shows "1 \<le> num_textures self fs"
  using length_truncated[OF assms(1), of fs] assms(2) by simp

section \<open>Example inputs, evaluated\<close>

lemma example_builder_init: "TextureAtlasBuilder 16 1024 = Inr example_builder"
  by (simp add: TextureAtlasBuilder_def example_builder_def)

lemma num_five_files: "num_textures example_builder five_files = 5"
  by (simp add: num_textures_def example_builder_def five_files_def)

lemma ceil_sqrt_5: "\<lceil>sqrt 5\<rceil> = (3::int)"
  using ceil_sqrt_unique[of 3 5] by simp

lemma tex_name_examples:
  "tex_name ''raw/a.png'' = ''a''" "tex_name ''raw/b.png'' = ''b''" "tex_name ''raw/c.png'' = ''c''"
  "tex_name ''raw/d.png'' = ''d''" "tex_name ''raw/e.png'' = ''e''"
  "tex_name ''raw/a.jpg'' = ''a''" "tex_name ''raw/broken.png'' = ''broken''"
  by (simp_all add: tex_name_def basename_def splitext_root_def)

lemma truncated_five_files: "truncated_files example_builder five_files = five_files"
  by (simp add: truncated_files_def example_builder_def five_files_def)

lemma grid_side_five_files: "grid_side example_builder five_files = 3"
  by (simp add: grid_side_def num_five_files ceil_sqrt_5)

lemma example_builder_fields:
  "texture_size example_builder = 16" "max_textures example_builder = 4096"
  by (simp_all add: example_builder_def)

lemma five_files_run:
  "create_atlas example_world example_builder five_files =
     Inr \<lparr>r_metadata = st_metadata (final_state example_world example_builder five_files),
          r_atlas = st_atlas (final_state example_world example_builder five_files),
          r_log = st_log (final_state example_world example_builder five_files)\<rparr>"
  by (rule create_atlas_run) (simp_all add: num_five_files example_builder_fields)

lemma five_files_entry_d:
  "md_textures (st_metadata (final_state example_world example_builder five_files)) ''d'' =
     Some (entry_of example_builder 3 48 3)"
proof -
  have later: "\<forall>j. 3 < j \<and> j < length (truncated_files example_builder five_files) \<and>
            open_rgba example_world (truncated_files example_builder five_files ! j) \<noteq> None
            \<longrightarrow> tex_name (truncated_files example_builder five_files ! j)
                  \<noteq> tex_name (truncated_files example_builder five_files ! 3)"
  proof (intro allI impI)
    fix j :: nat
    assume "3 < j \<and> j < length (truncated_files example_builder five_files) \<and>
            open_rgba example_world (truncated_files example_builder five_files ! j) \<noteq> None"
    then have "j = 4" unfolding truncated_five_files by (simp add: five_files_def)
    then show "tex_name (truncated_files example_builder five_files ! j)
                  \<noteq> tex_name (truncated_files example_builder five_files ! 3)"
      unfolding truncated_five_files by (simp add: five_files_def tex_name_examples)
  qed
  have "md_textures (st_metadata (final_state example_world example_builder five_files))
          (tex_name (truncated_files example_builder five_files ! 3)) =
        Some (entry_of example_builder (grid_side example_builder five_files)
                (grid_side example_builder five_files * texture_size example_builder) (int 3))"
    by (rule final_last[where t = red_tile, OF _ _ _ _ later])
       (simp_all add: example_builder_fields num_five_files truncated_five_files,
        simp_all add: five_files_def example_world_def)
  then show ?thesis
    unfolding truncated_five_files grid_side_five_files
    by (simp add: five_files_def tex_name_examples example_builder_fields)
qed

lemma small_builder_init: "TextureAtlasBuilder 16 32 = Inr small_builder"
  by (simp add: TextureAtlasBuilder_def small_builder_def)

lemma ceil_sqrt_3: "\<lceil>sqrt 3\<rceil> = (2::int)"
  using ceil_sqrt_unique[of 2 3] by simp

lemma truncated_three_files: "truncated_files example_builder three_files = three_files"
  by (simp add: truncated_files_def example_builder_def three_files_def)

lemma num_three_files: "num_textures example_builder three_files = 3"
  by (simp add: num_textures_def example_builder_def three_files_def)

lemma grid_side_three_files: "grid_side example_builder three_files = 2"
  by (simp add: grid_side_def num_three_files ceil_sqrt_3)

lemma three_files_run:
  "create_atlas example_world example_builder three_files =
     Inr \<lparr>r_metadata = st_metadata (final_state example_world example_builder three_files),
          r_atlas = st_atlas (final_state example_world example_builder three_files),
          r_log = st_log (final_state example_world example_builder three_files)\<rparr>"
  by (rule create_atlas_run) (simp_all add: num_three_files example_builder_fields)

lemma three_files_decoded:
  "tex_name ` {f \<in> set three_files. open_rgba example_world f \<noteq> None} = {''a'', ''c''}"
proof -
  have "{f \<in> set three_files. open_rgba example_world f \<noteq> None} = {''raw/a.png'', ''raw/c.png''}"
    by (auto simp add: three_files_def example_world_def)
  then show ?thesis by (simp add: tex_name_examples)
qed

lemma ceil_sqrt_2: "\<lceil>sqrt 2\<rceil> = (2::int)"
  using ceil_sqrt_unique[of 2 2] by simp

lemma truncated_collide_files: "truncated_files example_builder collide_files = collide_files"
  by (simp add: truncated_files_def example_builder_def collide_files_def)

lemma num_collide_files: "num_textures example_builder collide_files = 2"
  by (simp add: num_textures_def example_builder_def collide_files_def)

lemma grid_side_collide_files: "grid_side example_builder collide_files = 2"
  by (simp add: grid_side_def num_collide_files ceil_sqrt_2)

lemma collide_files_run:
  "create_atlas example_world example_builder collide_files =
     Inr \<lparr>r_metadata = st_metadata (final_state example_world example_builder collide_files),
          r_atlas = st_atlas (final_state example_world example_builder collide_files),
          r_log = st_log (final_state example_world example_builder collide_files)\<rparr>"
  by (rule create_atlas_run) (simp_all add: num_collide_files example_builder_fields)

lemma collide_files_entry:
  "md_textures (st_metadata (final_state example_world example_builder collide_files)) ''a'' =
     Some (entry_of example_builder 2 32 1)"
proof -
  have later: "\<forall>j. 1 < j \<and> j < length (truncated_files example_builder collide_files) \<and>
            open_rgba example_world (truncated_files example_builder collide_files ! j) \<noteq> None
            \<longrightarrow> tex_name (truncated_files example_builder collide_files ! j)
                  \<noteq> tex_name (truncated_files example_builder collide_files ! 1)"
    unfolding truncated_collide_files by (simp add: collide_files_def)
  have "md_textures (st_metadata (final_state example_world example_builder collide_files))
          (tex_name (truncated_files example_builder collide_files ! 1)) =
        Some (entry_of example_builder (grid_side example_builder collide_files)
                (grid_side example_builder collide_files * texture_size example_builder) (int 1))"
    by (rule final_last[where t = red_tile, OF _ _ _ _ later])
       (simp_all add: example_builder_fields num_collide_files truncated_collide_files,
        simp_all add: collide_files_def example_world_def)
  then show ?thesis
    unfolding truncated_collide_files grid_side_collide_files
    by (simp add: collide_files_def tex_name_examples example_builder_fields)
qed

lemma collide_files_dom:
  "dom (md_textures (st_metadata (final_state example_world example_builder collide_files))) = {''a''}"
proof -
  have "{f \<in> set collide_files. open_rgba example_world f \<noteq> None} = {''raw/a.jpg'', ''raw/a.png''}"
    by (auto simp add: collide_files_def example_world_def)
  then have "tex_name ` {f \<in> set collide_files. open_rgba example_world f \<noteq> None} = {''a''}"
    by (simp add: tex_name_examples)
  then show ?thesis
    using final_dom[of example_builder collide_files example_world]
    by (simp add: example_builder_fields num_collide_files truncated_collide_files)
qed

lemma collide_files_ran:
  "ran (md_textures (st_metadata (final_state example_world example_builder collide_files))) =
     {entry_of example_builder 2 32 1}"
proof -
  let ?m = "md_textures (st_metadata (final_state example_world example_builder collide_files))"
  have "\<And>a e. ?m a = Some e \<Longrightarrow> a = ''a''"
    using collide_files_dom by blast
  then show ?thesis using collide_files_entry by (auto simp add: ran_def)
qed

lemma example_tile: "tile_of example_world example_builder red_tile = red_tile"
  by (simp add: tile_of_def red_tile_def example_builder_def)

section \<open>The claims\<close>

text \<open>
  C1. For every texture count \<open>n \<ge> 1\<close> left after the capacity truncation, \<open>create_atlas\<close>
  returns, the grid side it stores is \<open>\<lceil>sqrt n\<rceil>\<close>, the atlas it builds and the size it
  stores are that side times the tile edge, and the side is the least whose square holds
  \<open>n\<close> tiles: \<open>n \<le> side\<^sup>2\<close>, \<open>(side - 1)\<^sup>2 < n\<close>, and no smaller side fits.
\<close>

theorem grid_is_smallest_square:
  assumes "TextureAtlasBuilder T A = Inr self" and "0 < T" and "1 \<le> num_textures self fs"
  shows "\<exists>r. create_atlas env self fs = Inr r \<and>
           int (length (truncated_files self fs)) = num_textures self fs \<and>
           md_textures_per_row (r_metadata r) = \<lceil>sqrt (of_int (num_textures self fs))\<rceil> \<and>
           md_atlas_size (r_metadata r) = md_textures_per_row (r_metadata r) * T \<and>
           img_size (r_atlas r) = (md_textures_per_row (r_metadata r) * T,
                                   md_textures_per_row (r_metadata r) * T) \<and>
           num_textures self fs \<le> (md_textures_per_row (r_metadata r))\<^sup>2 \<and>
           (md_textures_per_row (r_metadata r) - 1)\<^sup>2 < num_textures self fs \<and>
           (\<forall>j. 0 \<le> j \<and> num_textures self fs \<le> j\<^sup>2 \<longrightarrow> md_textures_per_row (r_metadata r) \<le> j)"
proof -
  let ?n = "num_textures self fs" and ?k = "grid_side self fs"
  have T: "texture_size self = T" and cap: "0 \<le> max_textures self"
    using builder_fields[OF assms(1)] by simp_all
  have pos: "0 < texture_size self" using assms(2) T by simp
  let ?r = "\<lparr>r_metadata = st_metadata (final_state env self fs),
             r_atlas = st_atlas (final_state env self fs),
             r_log = st_log (final_state env self fs)\<rparr>"
  have run: "create_atlas env self fs = Inr ?r" using assms(3) pos by (rule create_atlas_run)
  have fits: "?n \<le> ?k\<^sup>2" using assms(3) by (intro grid_side_fits) simp
  have tight: "(?k - 1)\<^sup>2 < ?n" using assms(3) by (rule grid_side_tight)
  have least: "\<forall>j. 0 \<le> j \<and> ?n \<le> j\<^sup>2 \<longrightarrow> ?k \<le> j"
  proof (intro allI impI, rule ccontr)
    fix j assume j: "0 \<le> j \<and> ?n \<le> j\<^sup>2" and "\<not> ?k \<le> j"
    then have "j \<le> ?k - 1" by simp
    then have "j\<^sup>2 \<le> (?k - 1)\<^sup>2" using j by (intro power_mono) simp_all
    then show False using tight j by linarith
  qed
  have "int (length (truncated_files self fs)) = ?n" using cap by (rule length_truncated)
  moreover have "md_textures_per_row (r_metadata ?r) = \<lceil>sqrt (of_int ?n)\<rceil>"
    by (simp add: final_fields grid_side_def)
  moreover have "md_atlas_size (r_metadata ?r) = md_textures_per_row (r_metadata ?r) * T"
    by (simp add: final_fields T)
  moreover have "img_size (r_atlas ?r) = (md_textures_per_row (r_metadata ?r) * T,
                                   md_textures_per_row (r_metadata ?r) * T)"
    by (simp add: final_fields T)
  moreover have "?n \<le> (md_textures_per_row (r_metadata ?r))\<^sup>2" using fits by (simp add: final_fields)
  moreover have "(md_textures_per_row (r_metadata ?r) - 1)\<^sup>2 < ?n" using tight by (simp add: final_fields)
  moreover have "\<forall>j. 0 \<le> j \<and> ?n \<le> j\<^sup>2 \<longrightarrow> md_textures_per_row (r_metadata ?r) \<le> j"
    using least by (simp add: final_fields)
  ultimately show ?thesis using run by blast
qed

theorem grid_is_smallest_square_witness:
  "TextureAtlasBuilder 16 1024 = Inr example_builder \<and>
   num_textures example_builder five_files = 5 \<and>
   (\<exists>r. create_atlas example_world example_builder five_files = Inr r \<and>
        md_textures_per_row (r_metadata r) = 3 \<and>
        md_atlas_size (r_metadata r) = 48 \<and>
        img_size (r_atlas r) = (48, 48))"
proof -
  have n: "1 \<le> num_textures example_builder five_files" by (simp add: num_five_files)
  from grid_is_smallest_square[OF example_builder_init _ n, of example_world]
  show ?thesis using ceil_sqrt_5 by (auto simp add: num_five_files example_builder_init)
qed

text \<open>
  C2. In a run over \<open>n \<ge> 1\<close> textures the grid side is \<open>\<lceil>sqrt n\<rceil>\<close>; every entry of the
  metadata has an index in \<open>[0, n)\<close> and the position
  \<open>(index mod side * T, index div side * T)\<close>; every file that decodes has its tile pasted
  at that origin of its own index, and has the entry of its own index unless a later file
  that decodes has the same identifier. For five files and \<open>T = 16\<close> the entry of index 3
  has row 1, column 0 and position \<open>(0, 16)\<close>.
\<close>

theorem placement_by_row_and_column:
  assumes "TextureAtlasBuilder T A = Inr self" and "0 < T" and "1 \<le> num_textures self fs"
  shows "\<exists>r. create_atlas env self fs = Inr r \<and>
           md_textures_per_row (r_metadata r) = \<lceil>sqrt (of_int (num_textures self fs))\<rceil> \<and>
           (\<forall>name e. md_textures (r_metadata r) name = Some e \<longrightarrow>
              0 \<le> index e \<and> index e < num_textures self fs \<and>
              position e = ((index e mod md_textures_per_row (r_metadata r)) * T,
                            (index e div md_textures_per_row (r_metadata r)) * T)) \<and>
           (\<forall>i t. i < length (truncated_files self fs) \<and>
                  open_rgba env (truncated_files self fs ! i) = Some t \<longrightarrow>
              (\<forall>dx dy. 0 \<le> dx \<and> dx < T \<and> 0 \<le> dy \<and> dy < T \<longrightarrow>
                 pixel_at (r_atlas r)
                   ((int i mod md_textures_per_row (r_metadata r)) * T + dx,
                    (int i div md_textures_per_row (r_metadata r)) * T + dy)
                 = Some (img_pix (tile_of env self t) (dx, dy))) \<and>
              ((\<forall>j. i < j \<and> j < length (truncated_files self fs) \<and>
                    open_rgba env (truncated_files self fs ! j) \<noteq> None
                    \<longrightarrow> tex_name (truncated_files self fs ! j) \<noteq> tex_name (truncated_files self fs ! i))
               \<longrightarrow> (\<exists>e. md_textures (r_metadata r) (tex_name (truncated_files self fs ! i)) = Some e \<and>
                        index e = int i \<and>
                        position e = ((int i mod md_textures_per_row (r_metadata r)) * T,
                                      (int i div md_textures_per_row (r_metadata r)) * T))))"
proof -
  let ?n = "num_textures self fs" and ?k = "grid_side self fs" and ?fs = "truncated_files self fs"
  have T: "texture_size self = T" and cap: "0 \<le> max_textures self"
    using builder_fields[OF assms(1)] by simp_all
  have pos: "0 < texture_size self" using assms(2) T by simp
  let ?r = "\<lparr>r_metadata = st_metadata (final_state env self fs),
             r_atlas = st_atlas (final_state env self fs),
             r_log = st_log (final_state env self fs)\<rparr>"
  have run: "create_atlas env self fs = Inr ?r" using assms(3) pos by (rule create_atlas_run)
  have side: "md_textures_per_row (r_metadata ?r) = \<lceil>sqrt (of_int ?n)\<rceil>"
    by (simp add: final_fields grid_side_def)
  have entries: "\<forall>name e. md_textures (r_metadata ?r) name = Some e \<longrightarrow>
              0 \<le> index e \<and> index e < ?n \<and>
              position e = ((index e mod md_textures_per_row (r_metadata ?r)) * T,
                            (index e div md_textures_per_row (r_metadata ?r)) * T)"
  proof (intro allI impI)
    fix name e assume "md_textures (r_metadata ?r) name = Some e"
    then have "md_textures (st_metadata (final_state env self fs)) name = Some e" by simp
    from final_entry[OF pos assms(3) this] obtain i where
      i: "i < length ?fs" "e = entry_of self ?k (?k * texture_size self) (int i)" by blast
    have "int i < ?n" using index_in_grid(1)[OF cap assms(3) i(1)] .
    then show "0 \<le> index e \<and> index e < ?n \<and>
              position e = ((index e mod md_textures_per_row (r_metadata ?r)) * T,
                            (index e div md_textures_per_row (r_metadata ?r)) * T)"
      using i(2) by (simp add: entry_of_simps final_fields T)
  qed
  have tiles: "\<forall>i t. i < length ?fs \<and> open_rgba env (?fs ! i) = Some t \<longrightarrow>
              (\<forall>dx dy. 0 \<le> dx \<and> dx < T \<and> 0 \<le> dy \<and> dy < T \<longrightarrow>
                 pixel_at (r_atlas ?r)
                   ((int i mod md_textures_per_row (r_metadata ?r)) * T + dx,
                    (int i div md_textures_per_row (r_metadata ?r)) * T + dy)
                 = Some (img_pix (tile_of env self t) (dx, dy))) \<and>
              ((\<forall>j. i < j \<and> j < length ?fs \<and> open_rgba env (?fs ! j) \<noteq> None
                    \<longrightarrow> tex_name (?fs ! j) \<noteq> tex_name (?fs ! i))
               \<longrightarrow> (\<exists>e. md_textures (r_metadata ?r) (tex_name (?fs ! i)) = Some e \<and>
                        index e = int i \<and>
                        position e = ((int i mod md_textures_per_row (r_metadata ?r)) * T,
                                      (int i div md_textures_per_row (r_metadata ?r)) * T)))"
  proof (intro allI impI conjI)
    fix i t dx dy
    assume it: "i < length ?fs \<and> open_rgba env (?fs ! i) = Some t"
      and d: "0 \<le> dx \<and> dx < T \<and> 0 \<le> dy \<and> dy < T"
    have "pixel_at (st_atlas (final_state env self fs))
           ((int i mod ?k) * texture_size self + dx, (int i div ?k) * texture_size self + dy)
         = Some (img_pix (tile_of env self t) (dx, dy))"
      using it d T by (intro final_pix_tile[OF cap pos assms(3)]) simp_all
    then show "pixel_at (r_atlas ?r)
                   ((int i mod md_textures_per_row (r_metadata ?r)) * T + dx,
                    (int i div md_textures_per_row (r_metadata ?r)) * T + dy)
                 = Some (img_pix (tile_of env self t) (dx, dy))"
      by (simp add: final_fields T)
  next
    fix i t
    assume it: "i < length ?fs \<and> open_rgba env (?fs ! i) = Some t"
      and later: "\<forall>j. i < j \<and> j < length ?fs \<and> open_rgba env (?fs ! j) \<noteq> None
                    \<longrightarrow> tex_name (?fs ! j) \<noteq> tex_name (?fs ! i)"
    have "md_textures (st_metadata (final_state env self fs)) (tex_name (?fs ! i)) =
            Some (entry_of self ?k (?k * texture_size self) (int i))"
      using it by (intro final_last[OF pos assms(3) _ _ later]) simp_all
    then show "\<exists>e. md_textures (r_metadata ?r) (tex_name (?fs ! i)) = Some e \<and>
                        index e = int i \<and>
                        position e = ((int i mod md_textures_per_row (r_metadata ?r)) * T,
                                      (int i div md_textures_per_row (r_metadata ?r)) * T)"
      by (simp add: entry_of_simps final_fields T)
  qed
  show ?thesis using run side entries tiles by blast
qed

theorem placement_by_row_and_column_witness:
  "TextureAtlasBuilder 16 1024 = Inr example_builder \<and>
   num_textures example_builder five_files = 5 \<and>
   (\<exists>r e. create_atlas example_world example_builder five_files = Inr r \<and>
          md_textures_per_row (r_metadata r) = 3 \<and>
          md_textures (r_metadata r) ''d'' = Some e \<and>
          index e = 3 \<and> index e div 3 = 1 \<and> index e mod 3 = 0 \<and> position e = (0, 16))"
proof -
  have n: "1 \<le> num_textures example_builder five_files" by (simp add: num_five_files)
  from placement_by_row_and_column[OF example_builder_init _ n, of example_world]
  obtain r where r: "create_atlas example_world example_builder five_files = Inr r"
    "md_textures_per_row (r_metadata r) = \<lceil>sqrt (of_int (num_textures example_builder five_files))\<rceil>"
    "\<forall>name e. md_textures (r_metadata r) name = Some e \<longrightarrow>
        0 \<le> index e \<and> index e < num_textures example_builder five_files \<and>
        position e = ((index e mod md_textures_per_row (r_metadata r)) * 16,
                      (index e div md_textures_per_row (r_metadata r)) * 16)"
    by auto
  have k: "md_textures_per_row (r_metadata r) = 3" using r(2) by (simp add: num_five_files ceil_sqrt_5)
  have "md_textures (r_metadata r) ''d'' = Some (entry_of example_builder 3 48 3)"
    using r(1) five_files_entry_d by (auto simp add: five_files_run)
  moreover from this r(3) have "position (entry_of example_builder 3 48 3) =
      ((index (entry_of example_builder 3 48 3) mod md_textures_per_row (r_metadata r)) * 16,
       (index (entry_of example_builder 3 48 3) div md_textures_per_row (r_metadata r)) * 16)"
    by blast
  ultimately show ?thesis using r(1) k
    by (auto simp add: example_builder_init num_five_files entry_of_simps)
qed

text \<open>
  C3. In a run over \<open>n \<ge> 1\<close> textures the atlas size is positive, and every entry of the
  metadata, with position \<open>(x, y)\<close>, has the rectangle
  \<open>uv_min = (x / size, (size - y - T) / size)\<close>,
  \<open>uv_max = ((x + T) / size, (size - y) / size)\<close>, the vertical axis flipped, with all four
  numbers between 0 and 1.
\<close>

theorem uv_rectangle_flipped:
  assumes "TextureAtlasBuilder T A = Inr self" and "0 < T" and "1 \<le> num_textures self fs"
  shows "\<exists>r. create_atlas env self fs = Inr r \<and>
           0 < md_atlas_size (r_metadata r) \<and>
           (\<forall>name e. md_textures (r_metadata r) name = Some e \<longrightarrow>
              uv_min (uv e) =
                (of_int (fst (position e)) / of_int (md_atlas_size (r_metadata r)),
                 of_int (md_atlas_size (r_metadata r) - snd (position e) - T)
                   / of_int (md_atlas_size (r_metadata r))) \<and>
              uv_max (uv e) =
                (of_int (fst (position e) + T) / of_int (md_atlas_size (r_metadata r)),
                 of_int (md_atlas_size (r_metadata r) - snd (position e))
                   / of_int (md_atlas_size (r_metadata r))) \<and>
              0 \<le> fst (uv_min (uv e)) \<and> fst (uv_min (uv e)) \<le> 1 \<and>
              0 \<le> snd (uv_min (uv e)) \<and> snd (uv_min (uv e)) \<le> 1 \<and>
              0 \<le> fst (uv_max (uv e)) \<and> fst (uv_max (uv e)) \<le> 1 \<and>
              0 \<le> snd (uv_max (uv e)) \<and> snd (uv_max (uv e)) \<le> 1)"
proof -
  let ?n = "num_textures self fs" and ?k = "grid_side self fs" and ?fs = "truncated_files self fs"
  let ?a = "grid_side self fs * texture_size self"
  have T: "texture_size self = T" and cap: "0 \<le> max_textures self"
    using builder_fields[OF assms(1)] by simp_all
  have pos: "0 < texture_size self" using assms(2) T by simp
  let ?r = "\<lparr>r_metadata = st_metadata (final_state env self fs),
             r_atlas = st_atlas (final_state env self fs),
             r_log = st_log (final_state env self fs)\<rparr>"
  have run: "create_atlas env self fs = Inr ?r" using assms(3) pos by (rule create_atlas_run)
  have a: "0 < ?a" using final_nonzero(4)[OF pos assms(3)] .
  have size: "md_atlas_size (r_metadata ?r) = ?a" by (simp add: final_fields)
  have entries: "\<forall>name e. md_textures (r_metadata ?r) name = Some e \<longrightarrow>
              uv_min (uv e) =
                (of_int (fst (position e)) / of_int ?a,
                 of_int (?a - snd (position e) - T) / of_int ?a) \<and>
              uv_max (uv e) =
                (of_int (fst (position e) + T) / of_int ?a,
                 of_int (?a - snd (position e)) / of_int ?a) \<and>
              0 \<le> fst (uv_min (uv e)) \<and> fst (uv_min (uv e)) \<le> 1 \<and>
              0 \<le> snd (uv_min (uv e)) \<and> snd (uv_min (uv e)) \<le> 1 \<and>
              0 \<le> fst (uv_max (uv e)) \<and> fst (uv_max (uv e)) \<le> 1 \<and>
              0 \<le> snd (uv_max (uv e)) \<and> snd (uv_max (uv e)) \<le> 1"
  proof (intro allI impI)
    fix name e assume "md_textures (r_metadata ?r) name = Some e"
    then have "md_textures (st_metadata (final_state env self fs)) name = Some e" by simp
    from final_entry[OF pos assms(3) this] obtain i where
      i: "i < length ?fs" "e = entry_of self ?k ?a (int i)" by blast
    let ?x = "(int i mod ?k) * texture_size self" and ?y = "(int i div ?k) * texture_size self"
    have b: "0 \<le> ?x" "?x + texture_size self \<le> ?a" "0 \<le> ?y" "?y + texture_size self \<le> ?a"
      using final_cell_bounds[OF cap pos assms(3) i(1)] by simp_all
    have e1: "uv_min (uv e) = (of_int ?x / of_int ?a, of_int (?a - ?y - texture_size self) / of_int ?a)"
      and e2: "uv_max (uv e) = (of_int (?x + texture_size self) / of_int ?a, of_int (?a - ?y) / of_int ?a)"
      and e3: "position e = (?x, ?y)"
      using i(2) by (simp_all add: entry_of_simps)
    have u1: "0 \<le> (of_int ?x / of_int ?a :: rat)" "(of_int ?x / of_int ?a :: rat) \<le> 1"
      using b pos by (intro unit_fraction[OF a]; linarith)+
    have u2: "0 \<le> (of_int (?a - ?y - texture_size self) / of_int ?a :: rat)"
         "(of_int (?a - ?y - texture_size self) / of_int ?a :: rat) \<le> 1"
      using b pos by (intro unit_fraction[OF a]; linarith)+
    have u3: "0 \<le> (of_int (?x + texture_size self) / of_int ?a :: rat)"
         "(of_int (?x + texture_size self) / of_int ?a :: rat) \<le> 1"
      using b pos by (intro unit_fraction[OF a]; linarith)+
    have u4: "0 \<le> (of_int (?a - ?y) / of_int ?a :: rat)" "(of_int (?a - ?y) / of_int ?a :: rat) \<le> 1"
      using b pos by (intro unit_fraction[OF a]; linarith)+
    show "uv_min (uv e) =
                (of_int (fst (position e)) / of_int ?a,
                 of_int (?a - snd (position e) - T) / of_int ?a) \<and>
              uv_max (uv e) =
                (of_int (fst (position e) + T) / of_int ?a,
                 of_int (?a - snd (position e)) / of_int ?a) \<and>
              0 \<le> fst (uv_min (uv e)) \<and> fst (uv_min (uv e)) \<le> 1 \<and>
              0 \<le> snd (uv_min (uv e)) \<and> snd (uv_min (uv e)) \<le> 1 \<and>
              0 \<le> fst (uv_max (uv e)) \<and> fst (uv_max (uv e)) \<le> 1 \<and>
              0 \<le> snd (uv_max (uv e)) \<and> snd (uv_max (uv e)) \<le> 1"
      unfolding e1 e2 e3 fst_conv snd_conv T[symmetric]
      using u1 u2 u3 u4 by blast
  qed
  show ?thesis using run a entries unfolding size[symmetric] by blast
qed

theorem uv_rectangle_flipped_witness:
  "TextureAtlasBuilder 16 1024 = Inr example_builder \<and>
   num_textures example_builder five_files = 5 \<and>
   (\<exists>r e. create_atlas example_world example_builder five_files = Inr r \<and>
          md_atlas_size (r_metadata r) = 48 \<and>
          md_textures (r_metadata r) ''d'' = Some e \<and>
          position e = (0, 16) \<and>
          uv_min (uv e) = (0, 1 / 3) \<and> uv_max (uv e) = (1 / 3, 2 / 3))"
proof -
  have n: "1 \<le> num_textures example_builder five_files" by (simp add: num_five_files)
  from uv_rectangle_flipped[OF example_builder_init _ n, of example_world]
  obtain r where r: "create_atlas example_world example_builder five_files = Inr r"
    "\<forall>name e. md_textures (r_metadata r) name = Some e \<longrightarrow>
        uv_min (uv e) =
          (of_int (fst (position e)) / of_int (md_atlas_size (r_metadata r)),
           of_int (md_atlas_size (r_metadata r) - snd (position e) - 16)
             / of_int (md_atlas_size (r_metadata r))) \<and>
        uv_max (uv e) =
          (of_int (fst (position e) + 16) / of_int (md_atlas_size (r_metadata r)),
           of_int (md_atlas_size (r_metadata r) - snd (position e))
             / of_int (md_atlas_size (r_metadata r)))"
    by auto
  have a: "md_atlas_size (r_metadata r) = 48"
    using r(1) by (auto simp add: five_files_run final_fields grid_side_five_files example_builder_fields)
  let ?e = "entry_of example_builder 3 48 3"
  have d: "md_textures (r_metadata r) ''d'' = Some ?e"
    using r(1) five_files_entry_d by (auto simp add: five_files_run)
  have p: "position ?e = (0, 16)" by (simp add: entry_of_simps example_builder_fields)
  from d r(2) have "uv_min (uv ?e) =
          (of_int (fst (position ?e)) / of_int (md_atlas_size (r_metadata r)),
           of_int (md_atlas_size (r_metadata r) - snd (position ?e) - 16)
             / of_int (md_atlas_size (r_metadata r))) \<and>
        uv_max (uv ?e) =
          (of_int (fst (position ?e) + 16) / of_int (md_atlas_size (r_metadata r)),
           of_int (md_atlas_size (r_metadata r) - snd (position ?e))
             / of_int (md_atlas_size (r_metadata r)))"
    by blast
  then have "uv_min (uv ?e) = (0, 1 / 3) \<and> uv_max (uv ?e) = (1 / 3, 2 / 3)"
    unfolding p a by simp
  then show ?thesis using r(1) a d p
    by (auto simp add: example_builder_init num_five_files)
qed

text \<open>
  C5. In a run over \<open>n \<ge> 1\<close> textures the atlas buffer is \<open>size\<close> by \<open>size\<close>; every entry of
  the metadata has \<open>0 \<le> x\<close>, \<open>0 \<le> y\<close>, \<open>x + T \<le> size\<close> and \<open>y + T \<le> size\<close>; and the cell
  of every index of the loop satisfies the same bounds, so that each of its pixels lies in
  the buffer.
\<close>

theorem cells_inside_atlas:
  assumes "TextureAtlasBuilder T A = Inr self" and "0 < T" and "1 \<le> num_textures self fs"
  shows "\<exists>r. create_atlas env self fs = Inr r \<and>
           img_size (r_atlas r) = (md_atlas_size (r_metadata r), md_atlas_size (r_metadata r)) \<and>
           (\<forall>name e. md_textures (r_metadata r) name = Some e \<longrightarrow>
              0 \<le> fst (position e) \<and> 0 \<le> snd (position e) \<and>
              fst (position e) + T \<le> md_atlas_size (r_metadata r) \<and>
              snd (position e) + T \<le> md_atlas_size (r_metadata r)) \<and>
           (\<forall>i. i < length (truncated_files self fs) \<longrightarrow>
              0 \<le> (int i mod md_textures_per_row (r_metadata r)) * T \<and>
              0 \<le> (int i div md_textures_per_row (r_metadata r)) * T \<and>
              (int i mod md_textures_per_row (r_metadata r)) * T + T \<le> md_atlas_size (r_metadata r) \<and>
              (int i div md_textures_per_row (r_metadata r)) * T + T \<le> md_atlas_size (r_metadata r) \<and>
              (\<forall>dx dy. 0 \<le> dx \<and> dx < T \<and> 0 \<le> dy \<and> dy < T \<longrightarrow>
                 pixel_at (r_atlas r)
                   ((int i mod md_textures_per_row (r_metadata r)) * T + dx,
                    (int i div md_textures_per_row (r_metadata r)) * T + dy) \<noteq> None))"
proof -
  let ?n = "num_textures self fs" and ?k = "grid_side self fs" and ?fs = "truncated_files self fs"
  let ?a = "grid_side self fs * texture_size self"
  have T: "texture_size self = T" and cap: "0 \<le> max_textures self"
    using builder_fields[OF assms(1)] by simp_all
  have pos: "0 < texture_size self" using assms(2) T by simp
  let ?r = "\<lparr>r_metadata = st_metadata (final_state env self fs),
             r_atlas = st_atlas (final_state env self fs),
             r_log = st_log (final_state env self fs)\<rparr>"
  have run: "create_atlas env self fs = Inr ?r" using assms(3) pos by (rule create_atlas_run)
  have size: "img_size (r_atlas ?r) = (md_atlas_size (r_metadata ?r), md_atlas_size (r_metadata ?r))"
    by (simp add: final_fields)
  have entries: "\<forall>name e. md_textures (r_metadata ?r) name = Some e \<longrightarrow>
              0 \<le> fst (position e) \<and> 0 \<le> snd (position e) \<and>
              fst (position e) + T \<le> md_atlas_size (r_metadata ?r) \<and>
              snd (position e) + T \<le> md_atlas_size (r_metadata ?r)"
  proof (intro allI impI)
    fix name e assume "md_textures (r_metadata ?r) name = Some e"
    then have "md_textures (st_metadata (final_state env self fs)) name = Some e" by simp
    from final_entry[OF pos assms(3) this] obtain i where
      i: "i < length ?fs" "e = entry_of self ?k ?a (int i)" by blast
    show "0 \<le> fst (position e) \<and> 0 \<le> snd (position e) \<and>
              fst (position e) + T \<le> md_atlas_size (r_metadata ?r) \<and>
              snd (position e) + T \<le> md_atlas_size (r_metadata ?r)"
      using final_cell_bounds[OF cap pos assms(3) i(1)] i(2)
      by (simp add: entry_of_simps final_fields T)
  qed
  have cells: "\<forall>i. i < length ?fs \<longrightarrow>
              0 \<le> (int i mod md_textures_per_row (r_metadata ?r)) * T \<and>
              0 \<le> (int i div md_textures_per_row (r_metadata ?r)) * T \<and>
              (int i mod md_textures_per_row (r_metadata ?r)) * T + T \<le> md_atlas_size (r_metadata ?r) \<and>
              (int i div md_textures_per_row (r_metadata ?r)) * T + T \<le> md_atlas_size (r_metadata ?r) \<and>
              (\<forall>dx dy. 0 \<le> dx \<and> dx < T \<and> 0 \<le> dy \<and> dy < T \<longrightarrow>
                 pixel_at (r_atlas ?r)
                   ((int i mod md_textures_per_row (r_metadata ?r)) * T + dx,
                    (int i div md_textures_per_row (r_metadata ?r)) * T + dy) \<noteq> None)"
  proof (intro allI impI)
    fix i assume i: "i < length ?fs"
    have b: "0 \<le> (int i mod ?k) * T" "(int i mod ?k) * T + T \<le> ?k * T"
      "0 \<le> (int i div ?k) * T" "(int i div ?k) * T + T \<le> ?k * T"
      using final_cell_bounds[OF cap pos assms(3) i] by (simp_all add: T)
    have "\<forall>dx dy. 0 \<le> dx \<and> dx < T \<and> 0 \<le> dy \<and> dy < T \<longrightarrow>
            pixel_at (r_atlas ?r) ((int i mod ?k) * T + dx, (int i div ?k) * T + dy) \<noteq> None"
      using b by (auto simp add: pixel_at_def final_fields T)
    then show "0 \<le> (int i mod md_textures_per_row (r_metadata ?r)) * T \<and>
              0 \<le> (int i div md_textures_per_row (r_metadata ?r)) * T \<and>
              (int i mod md_textures_per_row (r_metadata ?r)) * T + T \<le> md_atlas_size (r_metadata ?r) \<and>
              (int i div md_textures_per_row (r_metadata ?r)) * T + T \<le> md_atlas_size (r_metadata ?r) \<and>
              (\<forall>dx dy. 0 \<le> dx \<and> dx < T \<and> 0 \<le> dy \<and> dy < T \<longrightarrow>
                 pixel_at (r_atlas ?r)
                   ((int i mod md_textures_per_row (r_metadata ?r)) * T + dx,
                    (int i div md_textures_per_row (r_metadata ?r)) * T + dy) \<noteq> None)"
      using b by (simp add: final_fields T)
  qed
  show ?thesis using run size entries cells by blast
qed

theorem cells_inside_atlas_witness:
  "TextureAtlasBuilder 16 1024 = Inr example_builder \<and>
   num_textures example_builder five_files = 5 \<and>
   (\<exists>r e. create_atlas example_world example_builder five_files = Inr r \<and>
          img_size (r_atlas r) = (48, 48) \<and>
          md_textures (r_metadata r) ''d'' = Some e \<and>
          position e = (0, 16) \<and>
          0 \<le> fst (position e) \<and> 0 \<le> snd (position e) \<and>
          fst (position e) + 16 \<le> md_atlas_size (r_metadata r) \<and>
          snd (position e) + 16 \<le> md_atlas_size (r_metadata r))"
proof -
  have n: "1 \<le> num_textures example_builder five_files" by (simp add: num_five_files)
  from cells_inside_atlas[OF example_builder_init _ n, of example_world]
  obtain r where r: "create_atlas example_world example_builder five_files = Inr r"
    "img_size (r_atlas r) = (md_atlas_size (r_metadata r), md_atlas_size (r_metadata r))"
    "\<forall>name e. md_textures (r_metadata r) name = Some e \<longrightarrow>
              0 \<le> fst (position e) \<and> 0 \<le> snd (position e) \<and>
              fst (position e) + 16 \<le> md_atlas_size (r_metadata r) \<and>
              snd (position e) + 16 \<le> md_atlas_size (r_metadata r)"
    by auto
  have a: "md_atlas_size (r_metadata r) = 48"
    using r(1) by (auto simp add: five_files_run final_fields grid_side_five_files example_builder_fields)
  let ?e = "entry_of example_builder 3 48 3"
  have d: "md_textures (r_metadata r) ''d'' = Some ?e"
    using r(1) five_files_entry_d by (auto simp add: five_files_run)
  have p: "position ?e = (0, 16)" by (simp add: entry_of_simps example_builder_fields)
  from d r(3) have "0 \<le> fst (position ?e) \<and> 0 \<le> snd (position ?e) \<and>
              fst (position ?e) + 16 \<le> md_atlas_size (r_metadata r) \<and>
              snd (position ?e) + 16 \<le> md_atlas_size (r_metadata r)" by blast
  then show ?thesis using r(1,2) a d p
    by (auto simp add: example_builder_init num_five_files)
qed

text \<open>
  C9. When the input directory holds no texture, \<open>main\<close> returns exit code 1 without
  calling \<open>create_atlas\<close>; and \<open>create_atlas\<close> itself, given the empty list, raises before it
  builds an atlas, at the division of line 44.
\<close>

theorem no_inputs_no_atlas:
  assumes "glob env (path_join INPUT_DIR ''*.png'') = []"
    and "glob env (path_join INPUT_DIR ''*.jpg'') = []"
    and "glob env (path_join INPUT_DIR ''*.jpeg'') = []"
    and "TextureAtlasBuilder T A = Inr self"
  shows "main env = Inr (1, None) \<and> create_atlas env self [] = Inl ZeroDivisionError"
proof -
  have "0 \<le> max_textures self" using builder_fields(6)[OF assms(4)] .
  then have "num_textures self [] = 0" by (simp add: num_textures_def)
  then have "create_atlas env self [] = Inl ZeroDivisionError" by (rule create_atlas_empty_grid)
  moreover have "main env = Inr (1, None)" using assms(1-3) by (simp add: main_def)
  ultimately show ?thesis by simp
qed

theorem no_inputs_no_atlas_witness:
  "glob example_world (path_join INPUT_DIR ''*.png'') = [] \<and>
   glob example_world (path_join INPUT_DIR ''*.jpg'') = [] \<and>
   glob example_world (path_join INPUT_DIR ''*.jpeg'') = [] \<and>
   TextureAtlasBuilder 16 1024 = Inr example_builder \<and>
   main example_world = Inr (1, None) \<and>
   create_atlas example_world example_builder [] = Inl ZeroDivisionError"
proof -
  have g: "glob example_world (path_join INPUT_DIR ''*.png'') = []"
    "glob example_world (path_join INPUT_DIR ''*.jpg'') = []"
    "glob example_world (path_join INPUT_DIR ''*.jpeg'') = []"
    by (simp_all add: example_world_def)
  from no_inputs_no_atlas[OF g example_builder_init] show ?thesis
    using g example_builder_init by simp
qed

text \<open>
  C4. With a tile edge of 16 and a target size of 8 the capacity is 0; one input is more
  than that, the list is truncated to the empty list, and \<open>create_atlas\<close> raises
  \<^verbatim>\<open>ZeroDivisionError\<close> at the utilization line instead of going on.
\<close>

theorem truncation_to_zero_raises:
  "TextureAtlasBuilder 16 8 = Inr tiny_builder \<and>
   max_textures tiny_builder = (8 div 16)\<^sup>2 \<and>
   max_textures tiny_builder < int (length [''raw/a.png'']) \<and>
   truncated_files tiny_builder [''raw/a.png''] = [] \<and>
   create_atlas example_world tiny_builder [''raw/a.png''] = Inl ZeroDivisionError"
proof -
  have "num_textures tiny_builder [''raw/a.png''] = 0"
    by (simp add: num_textures_def tiny_builder_def)
  then have "create_atlas example_world tiny_builder [''raw/a.png''] = Inl ZeroDivisionError"
    by (rule create_atlas_empty_grid)
  then show ?thesis
    by (simp add: TextureAtlasBuilder_def tiny_builder_def truncated_files_def slice_to_def)
qed

text \<open>
  C10. When the input is longer than the capacity and the tile edge is at most the target
  size, the count after truncation is the capacity \<open>(A div T)\<^sup>2\<close>, the list is cut to that
  many files, the grid side is \<open>A div T\<close>, the atlas size is \<open>(A div T) * T\<close>, at most the
  target, and every cell of the grid is the cell of one index of the loop, holding that
  file's tile when the file decodes.
\<close>

theorem truncated_grid_is_full:
  assumes "TextureAtlasBuilder T A = Inr self" and "0 < T" and "T \<le> A"
    and "max_textures self < int (length fs)"
  shows "num_textures self fs = (A div T)\<^sup>2 \<and>
         truncated_files self fs = take (nat ((A div T)\<^sup>2)) fs \<and>
         int (length (truncated_files self fs)) = (A div T)\<^sup>2 \<and>
         (\<exists>r. create_atlas env self fs = Inr r \<and>
              md_textures_per_row (r_metadata r) = A div T \<and>
              md_atlas_size (r_metadata r) = (A div T) * T \<and>
              md_atlas_size (r_metadata r) \<le> A \<and>
              img_size (r_atlas r) = ((A div T) * T, (A div T) * T) \<and>
              (\<forall>row col. 0 \<le> row \<and> row < A div T \<and> 0 \<le> col \<and> col < A div T \<longrightarrow>
                 (\<exists>i < length (truncated_files self fs).
                     int i div (A div T) = row \<and> int i mod (A div T) = col \<and>
                     (\<forall>t dx dy. open_rgba env (truncated_files self fs ! i) = Some t \<and>
                          0 \<le> dx \<and> dx < T \<and> 0 \<le> dy \<and> dy < T \<longrightarrow>
                        pixel_at (r_atlas r) (col * T + dx, row * T + dy)
                          = Some (img_pix (tile_of env self t) (dx, dy))))))"
proof -
  let ?k = "A div T" and ?fs = "truncated_files self fs"
  have T: "texture_size self = T" and max: "max_textures self = ?k\<^sup>2"
    using builder_fields[OF assms(1)] by simp_all
  have pos: "0 < texture_size self" using assms(2) T by simp
  have cap: "0 \<le> max_textures self" using max by simp
  have k1: "1 \<le> ?k" using assms(2,3) by (rule div_ge_one)
  note tf = truncation_facts(1,2)[OF cap assms(4)]
  have n: "num_textures self fs = ?k\<^sup>2" using tf max by simp
  have "1 * 1 \<le> ?k * ?k" using k1 by (intro mult_mono) simp_all
  then have n1: "1 \<le> num_textures self fs" using n by (simp add: power2_eq_square)
  have len: "int (length ?fs) = ?k\<^sup>2" using length_truncated[OF cap, of fs] n by simp
  have side: "grid_side self fs = ?k" unfolding grid_side_def n using k1 by (intro ceil_sqrt_square) simp
  let ?r = "\<lparr>r_metadata = st_metadata (final_state env self fs),
             r_atlas = st_atlas (final_state env self fs),
             r_log = st_log (final_state env self fs)\<rparr>"
  have run: "create_atlas env self fs = Inr ?r" using n1 pos by (rule create_atlas_run)
  have le: "?k * T \<le> A" using assms(2) by (rule div_times_le)
  have cells: "\<forall>row col. 0 \<le> row \<and> row < ?k \<and> 0 \<le> col \<and> col < ?k \<longrightarrow>
                 (\<exists>i < length ?fs.
                     int i div ?k = row \<and> int i mod ?k = col \<and>
                     (\<forall>t dx dy. open_rgba env (?fs ! i) = Some t \<and>
                          0 \<le> dx \<and> dx < T \<and> 0 \<le> dy \<and> dy < T \<longrightarrow>
                        pixel_at (r_atlas ?r) (col * T + dx, row * T + dy)
                          = Some (img_pix (tile_of env self t) (dx, dy))))"
  proof (intro allI impI)
    fix row col assume rc: "0 \<le> row \<and> row < ?k \<and> 0 \<le> col \<and> col < ?k"
    let ?i = "nat (row * ?k + col)"
    have nonneg: "0 \<le> row * ?k + col" using rc k1 by simp
    have i: "int ?i = row * ?k + col" using nonneg by simp
    have "row + 1 \<le> ?k" using rc by simp
    then have "(row + 1) * ?k \<le> ?k * ?k" using k1 by (intro mult_right_mono) simp_all
    then have "row * ?k + col < ?k * ?k" using rc by (simp add: algebra_simps)
    then have lt: "?i < length ?fs" using len nonneg by (simp add: power2_eq_square nat_less_iff)
    have d: "int ?i div ?k = row" and m: "int ?i mod ?k = col"
      unfolding i using rc by (simp_all add: cell_index)
    have "\<forall>t dx dy. open_rgba env (?fs ! ?i) = Some t \<and>
                          0 \<le> dx \<and> dx < T \<and> 0 \<le> dy \<and> dy < T \<longrightarrow>
                        pixel_at (r_atlas ?r) (col * T + dx, row * T + dy)
                          = Some (img_pix (tile_of env self t) (dx, dy))"
    proof (intro allI impI)
      fix t dx dy
      assume a: "open_rgba env (?fs ! ?i) = Some t \<and> 0 \<le> dx \<and> dx < T \<and> 0 \<le> dy \<and> dy < T"
      have "pixel_at (st_atlas (final_state env self fs))
           ((int ?i mod grid_side self fs) * texture_size self + dx,
            (int ?i div grid_side self fs) * texture_size self + dy)
         = Some (img_pix (tile_of env self t) (dx, dy))"
        using a T by (intro final_pix_tile[OF cap pos n1 lt]) simp_all
      then show "pixel_at (r_atlas ?r) (col * T + dx, row * T + dy)
                          = Some (img_pix (tile_of env self t) (dx, dy))"
        unfolding side d m T by simp
    qed
    then show "\<exists>i < length ?fs.
                     int i div ?k = row \<and> int i mod ?k = col \<and>
                     (\<forall>t dx dy. open_rgba env (?fs ! i) = Some t \<and>
                          0 \<le> dx \<and> dx < T \<and> 0 \<le> dy \<and> dy < T \<longrightarrow>
                        pixel_at (r_atlas ?r) (col * T + dx, row * T + dy)
                          = Some (img_pix (tile_of env self t) (dx, dy)))"
      using lt d m by blast
  qed
  have f: "md_textures_per_row (r_metadata ?r) = ?k" "md_atlas_size (r_metadata ?r) = ?k * T"
    "md_atlas_size (r_metadata ?r) \<le> A" "img_size (r_atlas ?r) = (?k * T, ?k * T)"
    using le by (simp_all add: final_fields side T)
  have "truncated_files self fs = take (nat (?k\<^sup>2)) fs" using tf(2) max by simp
  then show ?thesis using n len run f cells by blast
qed

theorem truncated_grid_is_full_witness:
  "TextureAtlasBuilder 16 32 = Inr small_builder \<and>
   max_textures small_builder < int (length six_files) \<and>
   num_textures small_builder six_files = 4 \<and>
   truncated_files small_builder six_files = [''raw/a.png'', ''raw/b.png'', ''raw/c.png'', ''raw/d.png''] \<and>
   (\<exists>r. create_atlas example_world small_builder six_files = Inr r \<and>
        md_textures_per_row (r_metadata r) = 2 \<and>
        md_atlas_size (r_metadata r) = 32 \<and>
        img_size (r_atlas r) = (32, 32))"
proof -
  have m: "max_textures small_builder < int (length six_files)"
    by (simp add: small_builder_def six_files_def)
  from truncated_grid_is_full[OF small_builder_init _ _ m, of example_world]
  show ?thesis using m by (auto simp add: small_builder_init six_files_def)
qed

text \<open>
  C6. When a file of the (truncated) list does not decode, \<open>create_atlas\<close> still returns:
  no entry of the metadata has that file's index, every pixel of the cell of that index is
  transparent, the failure is printed, the identifiers of the metadata are those of the
  files that decode, and every file that decodes is pasted into the cell of its own index
  and (unless a later decoded file has its identifier) has the entry of its own index.
\<close>

theorem decode_failure_skips_one_texture:
  assumes "TextureAtlasBuilder T A = Inr self" and "0 < T"
    and "i < length (truncated_files self fs)"
    and "open_rgba env (truncated_files self fs ! i) = None"
  shows "\<exists>r. create_atlas env self fs = Inr r \<and>
           (\<forall>name e. md_textures (r_metadata r) name = Some e \<longrightarrow> index e \<noteq> int i) \<and>
           (\<forall>dx dy. 0 \<le> dx \<and> dx < T \<and> 0 \<le> dy \<and> dy < T \<longrightarrow>
              pixel_at (r_atlas r)
                ((int i mod md_textures_per_row (r_metadata r)) * T + dx,
                 (int i div md_textures_per_row (r_metadata r)) * T + dy) = Some transparent) \<and>
           LoadError (truncated_files self fs ! i) \<in> set (r_log r) \<and>
           dom (md_textures (r_metadata r)) =
             tex_name ` {f \<in> set (truncated_files self fs). open_rgba env f \<noteq> None} \<and>
           (\<forall>j t. j < length (truncated_files self fs) \<and>
                  open_rgba env (truncated_files self fs ! j) = Some t \<longrightarrow>
              (\<forall>dx dy. 0 \<le> dx \<and> dx < T \<and> 0 \<le> dy \<and> dy < T \<longrightarrow>
                 pixel_at (r_atlas r)
                   ((int j mod md_textures_per_row (r_metadata r)) * T + dx,
                    (int j div md_textures_per_row (r_metadata r)) * T + dy)
                 = Some (img_pix (tile_of env self t) (dx, dy))) \<and>
              ((\<forall>l. j < l \<and> l < length (truncated_files self fs) \<and>
                    open_rgba env (truncated_files self fs ! l) \<noteq> None
                    \<longrightarrow> tex_name (truncated_files self fs ! l) \<noteq> tex_name (truncated_files self fs ! j))
               \<longrightarrow> (\<exists>e. md_textures (r_metadata r) (tex_name (truncated_files self fs ! j)) = Some e \<and>
                        index e = int j)))"
proof -
  let ?k = "grid_side self fs" and ?fs = "truncated_files self fs"
  have T: "texture_size self = T" and cap: "0 \<le> max_textures self"
    using builder_fields[OF assms(1)] by simp_all
  have pos: "0 < texture_size self" using assms(2) T by simp
  have n: "1 \<le> num_textures self fs" using cap assms(3) by (rule nonempty_run)
  let ?r = "\<lparr>r_metadata = st_metadata (final_state env self fs),
             r_atlas = st_atlas (final_state env self fs),
             r_log = st_log (final_state env self fs)\<rparr>"
  have run: "create_atlas env self fs = Inr ?r" using n pos by (rule create_atlas_run)
  have no_entry: "\<forall>name e. md_textures (r_metadata ?r) name = Some e \<longrightarrow> index e \<noteq> int i"
  proof (intro allI impI notI)
    fix name e assume "md_textures (r_metadata ?r) name = Some e" and eq: "index e = int i"
    then have "md_textures (st_metadata (final_state env self fs)) name = Some e" by simp
    from final_entry[OF pos n this] obtain i' where
      i': "open_rgba env (?fs ! i') \<noteq> None" "e = entry_of self ?k (?k * texture_size self) (int i')"
      by blast
    have "i' = i" using i'(2) eq by (simp add: entry_of_simps)
    then show False using i'(1) assms(4) by simp
  qed
  have blank: "\<forall>dx dy. 0 \<le> dx \<and> dx < T \<and> 0 \<le> dy \<and> dy < T \<longrightarrow>
              pixel_at (r_atlas ?r)
                ((int i mod md_textures_per_row (r_metadata ?r)) * T + dx,
                 (int i div md_textures_per_row (r_metadata ?r)) * T + dy) = Some transparent"
  proof (intro allI impI)
    fix dx dy assume d: "0 \<le> dx \<and> dx < T \<and> 0 \<le> dy \<and> dy < T"
    have "pixel_at (st_atlas (final_state env self fs))
           ((int i mod ?k) * texture_size self + dx, (int i div ?k) * texture_size self + dy)
         = Some transparent"
      using d T by (intro final_pix_blank[OF cap pos n assms(3,4)]) simp_all
    then show "pixel_at (r_atlas ?r)
                ((int i mod md_textures_per_row (r_metadata ?r)) * T + dx,
                 (int i div md_textures_per_row (r_metadata ?r)) * T + dy) = Some transparent"
      by (simp add: final_fields T)
  qed
  have "?fs ! i \<in> set ?fs" using assms(3) by simp
  then have logged: "LoadError (?fs ! i) \<in> set (r_log ?r)"
    using assms(4) by (simp add: final_log[OF pos n])
  have names: "dom (md_textures (r_metadata ?r)) = tex_name ` {f \<in> set ?fs. open_rgba env f \<noteq> None}"
    using final_dom[OF pos n, of env] by simp
  have rest: "\<forall>j t. j < length ?fs \<and> open_rgba env (?fs ! j) = Some t \<longrightarrow>
              (\<forall>dx dy. 0 \<le> dx \<and> dx < T \<and> 0 \<le> dy \<and> dy < T \<longrightarrow>
                 pixel_at (r_atlas ?r)
                   ((int j mod md_textures_per_row (r_metadata ?r)) * T + dx,
                    (int j div md_textures_per_row (r_metadata ?r)) * T + dy)
                 = Some (img_pix (tile_of env self t) (dx, dy))) \<and>
              ((\<forall>l. j < l \<and> l < length ?fs \<and> open_rgba env (?fs ! l) \<noteq> None
                    \<longrightarrow> tex_name (?fs ! l) \<noteq> tex_name (?fs ! j))
               \<longrightarrow> (\<exists>e. md_textures (r_metadata ?r) (tex_name (?fs ! j)) = Some e \<and>
                        index e = int j))"
  proof (intro allI impI conjI)
    fix j t dx dy
    assume jt: "j < length ?fs \<and> open_rgba env (?fs ! j) = Some t"
      and d: "0 \<le> dx \<and> dx < T \<and> 0 \<le> dy \<and> dy < T"
    have "pixel_at (st_atlas (final_state env self fs))
           ((int j mod ?k) * texture_size self + dx, (int j div ?k) * texture_size self + dy)
         = Some (img_pix (tile_of env self t) (dx, dy))"
      using jt d T by (intro final_pix_tile[OF cap pos n]) simp_all
    then show "pixel_at (r_atlas ?r)
                   ((int j mod md_textures_per_row (r_metadata ?r)) * T + dx,
                    (int j div md_textures_per_row (r_metadata ?r)) * T + dy)
                 = Some (img_pix (tile_of env self t) (dx, dy))"
      by (simp add: final_fields T)
  next
    fix j t
    assume jt: "j < length ?fs \<and> open_rgba env (?fs ! j) = Some t"
      and later: "\<forall>l. j < l \<and> l < length ?fs \<and> open_rgba env (?fs ! l) \<noteq> None
                    \<longrightarrow> tex_name (?fs ! l) \<noteq> tex_name (?fs ! j)"
    have "md_textures (st_metadata (final_state env self fs)) (tex_name (?fs ! j)) =
            Some (entry_of self ?k (?k * texture_size self) (int j))"
      using jt by (intro final_last[OF pos n _ _ later]) simp_all
    then show "\<exists>e. md_textures (r_metadata ?r) (tex_name (?fs ! j)) = Some e \<and> index e = int j"
      by (simp add: entry_of_simps)
  qed
  show ?thesis using run no_entry blank logged names rest by blast
qed

theorem decode_failure_skips_one_texture_witness:
  "TextureAtlasBuilder 16 1024 = Inr example_builder \<and>
   truncated_files example_builder three_files = three_files \<and>
   open_rgba example_world (three_files ! 1) = None \<and>
   (\<exists>r. create_atlas example_world example_builder three_files = Inr r \<and>
        card (dom (md_textures (r_metadata r))) = 2 \<and>
        md_textures (r_metadata r) ''broken'' = None \<and>
        pixel_at (r_atlas r) (16, 0) = Some transparent \<and>
        LoadError ''raw/broken.png'' \<in> set (r_log r))"
proof -
  have i: "1 < length (truncated_files example_builder three_files)"
    unfolding truncated_three_files by (simp add: three_files_def)
  have fail: "open_rgba example_world (truncated_files example_builder three_files ! 1) = None"
    unfolding truncated_three_files by (simp add: three_files_def example_world_def)
  from decode_failure_skips_one_texture[OF example_builder_init _ i fail]
  obtain r where r: "create_atlas example_world example_builder three_files = Inr r"
    "\<forall>dx dy. 0 \<le> dx \<and> dx < 16 \<and> 0 \<le> dy \<and> dy < 16 \<longrightarrow>
        pixel_at (r_atlas r)
          ((int 1 mod md_textures_per_row (r_metadata r)) * 16 + dx,
           (int 1 div md_textures_per_row (r_metadata r)) * 16 + dy) = Some transparent"
    "LoadError (truncated_files example_builder three_files ! 1) \<in> set (r_log r)"
    "dom (md_textures (r_metadata r)) =
       tex_name ` {f \<in> set (truncated_files example_builder three_files).
                    open_rgba example_world f \<noteq> None}"
    by auto
  have k: "md_textures_per_row (r_metadata r) = 2"
    using r(1) by (auto simp add: three_files_run final_fields grid_side_three_files)
  have d: "dom (md_textures (r_metadata r)) = {''a'', ''c''}"
    using r(4) unfolding truncated_three_files three_files_decoded .
  then have c: "card (dom (md_textures (r_metadata r))) = 2" by simp
  have "''broken'' \<notin> dom (md_textures (r_metadata r))" unfolding d by simp
  then have b: "md_textures (r_metadata r) ''broken'' = None" by blast
  have "0 \<le> (0::int) \<and> (0::int) < 16 \<and> 0 \<le> (0::int) \<and> (0::int) < 16" by simp
  with r(2) have "pixel_at (r_atlas r)
          ((int 1 mod md_textures_per_row (r_metadata r)) * 16 + 0,
           (int 1 div md_textures_per_row (r_metadata r)) * 16 + 0) = Some transparent"
    by blast
  then have p: "pixel_at (r_atlas r) (16, 0) = Some transparent" unfolding k by simp
  have l: "LoadError ''raw/broken.png'' \<in> set (r_log r)"
    using r(3) unfolding truncated_three_files by (simp add: three_files_def)
  show ?thesis using r(1) c b p l fail
    by (auto simp add: example_builder_init truncated_three_files)
qed

text \<open>
  C7. The claim as stated fails: two files that both decode and share an identifier leave
  one entry, of index 1, so index 0 is missing.
\<close>

theorem indices_cover_counterexample:
  "TextureAtlasBuilder 16 1024 = Inr example_builder \<and>
   num_textures example_builder collide_files = 2 \<and>
   open_rgba example_world ''raw/a.jpg'' \<noteq> None \<and>
   open_rgba example_world ''raw/a.png'' \<noteq> None \<and>
   \<not> isl (create_atlas example_world example_builder collide_files) \<and>
   index ` ran (md_textures (r_metadata (projr
      (create_atlas example_world example_builder collide_files)))) = {1} \<and>
   index ` ran (md_textures (r_metadata (projr
      (create_atlas example_world example_builder collide_files))))
     \<noteq> {0 ..< num_textures example_builder collide_files}"
proof -
  let ?run = "create_atlas example_world example_builder collide_files"
  have "(0::int) \<notin> {1}" by simp
  moreover have "(0::int) \<in> {0 ..< 2}" by simp
  ultimately have ne: "{1::int} \<noteq> {0 ..< 2}" by metis
  have ok: "\<not> isl ?run" unfolding collide_files_run by simp
  have ix: "index ` ran (md_textures (r_metadata (projr ?run))) = {1}"
    unfolding collide_files_run by (simp add: collide_files_ran entry_of_simps)
  have dec: "open_rgba example_world ''raw/a.jpg'' \<noteq> None"
    "open_rgba example_world ''raw/a.png'' \<noteq> None"
    by (simp_all add: example_world_def)
  have "index ` ran (md_textures (r_metadata (projr ?run)))
          \<noteq> {0 ..< num_textures example_builder collide_files}"
    unfolding ix num_collide_files by (rule ne)
  then show ?thesis using example_builder_init num_collide_files dec ok ix by blast
qed

text \<open>
  C7, amended. In a run over \<open>n \<ge> 1\<close> textures in which every file decodes and the
  identifiers of the files are pairwise distinct, the indices stored in the metadata are
  exactly \<open>0, \<dots>, n - 1\<close>, entries under different identifiers have different indices, and the
  file of index \<open>i\<close> has the entry of index \<open>i\<close>.
\<close>

theorem indices_cover_when_identifiers_distinct:
  assumes "TextureAtlasBuilder T A = Inr self" and "0 < T" and "1 \<le> num_textures self fs"
    and "\<forall>f \<in> set (truncated_files self fs). open_rgba env f \<noteq> None"
    and "distinct (map tex_name (truncated_files self fs))"
  shows "\<exists>r. create_atlas env self fs = Inr r \<and>
           index ` ran (md_textures (r_metadata r)) = {0 ..< num_textures self fs} \<and>
           (\<forall>name1 name2 e1 e2.
               md_textures (r_metadata r) name1 = Some e1 \<and>
               md_textures (r_metadata r) name2 = Some e2 \<and> name1 \<noteq> name2
               \<longrightarrow> index e1 \<noteq> index e2) \<and>
           (\<forall>i < length (truncated_files self fs).
               \<exists>e. md_textures (r_metadata r) (tex_name (truncated_files self fs ! i)) = Some e \<and>
                   index e = int i)"
proof -
  let ?k = "grid_side self fs" and ?fs = "truncated_files self fs" and ?n = "num_textures self fs"
  let ?a = "grid_side self fs * texture_size self"
  have T: "texture_size self = T" and cap: "0 \<le> max_textures self"
    using builder_fields[OF assms(1)] by simp_all
  have pos: "0 < texture_size self" using assms(2) T by simp
  have len: "int (length ?fs) = ?n" using cap by (rule length_truncated)
  let ?r = "\<lparr>r_metadata = st_metadata (final_state env self fs),
             r_atlas = st_atlas (final_state env self fs),
             r_log = st_log (final_state env self fs)\<rparr>"
  let ?m = "md_textures (st_metadata (final_state env self fs))"
  have run: "create_atlas env self fs = Inr ?r" using assms(3) pos by (rule create_atlas_run)
  have own: "?m (tex_name (?fs ! i)) = Some (entry_of self ?k ?a (int i))" if i: "i < length ?fs" for i
  proof -
    obtain t where t: "open_rgba env (?fs ! i) = Some t" using assms(4) i by fastforce
    have later: "\<forall>j. i < j \<and> j < length ?fs \<and> open_rgba env (?fs ! j) \<noteq> None
                    \<longrightarrow> tex_name (?fs ! j) \<noteq> tex_name (?fs ! i)"
    proof (intro allI impI)
      fix j assume j: "i < j \<and> j < length ?fs \<and> open_rgba env (?fs ! j) \<noteq> None"
      have "\<forall>p < length (map tex_name ?fs). \<forall>q < length (map tex_name ?fs).
              p \<noteq> q \<longrightarrow> map tex_name ?fs ! p \<noteq> map tex_name ?fs ! q"
        using assms(5) by (simp only: distinct_conv_nth)
      then have "map tex_name ?fs ! j \<noteq> map tex_name ?fs ! i"
        using i j by (metis length_map less_irrefl)
      then show "tex_name (?fs ! j) \<noteq> tex_name (?fs ! i)" using i j by simp
    qed
    show ?thesis by (rule final_last[OF pos assms(3) i t later])
  qed
  have from_file: "\<exists>i < length ?fs. tex_name (?fs ! i) = name \<and> e = entry_of self ?k ?a (int i)"
    if "?m name = Some e" for name e
    using final_entry[OF pos assms(3) that] by blast
  have cover: "index ` ran ?m = {0 ..< ?n}"
  proof (intro equalityI subsetI)
    fix x assume "x \<in> index ` ran ?m"
    then obtain name e where e: "?m name = Some e" "x = index e" by (auto simp add: ran_def)
    from from_file[OF e(1)] obtain i where i: "i < length ?fs" "e = entry_of self ?k ?a (int i)"
      by blast
    have "x = int i" using e(2) i(2) by (simp add: entry_of_simps)
    then show "x \<in> {0 ..< ?n}" using len i(1) by simp
  next
    fix x assume "x \<in> {0 ..< ?n}"
    then have x0: "0 \<le> x" "x < int (length ?fs)" using len by simp_all
    then have i: "nat x < length ?fs" and x: "int (nat x) = x" by linarith+
    have "entry_of self ?k ?a x \<in> ran ?m" using own[OF i] x by (auto simp add: ran_def)
    then have "index (entry_of self ?k ?a x) \<in> index ` ran ?m" by (rule imageI)
    then show "x \<in> index ` ran ?m" by (simp add: entry_of_simps)
  qed
  have apart: "\<forall>name1 name2 e1 e2. ?m name1 = Some e1 \<and> ?m name2 = Some e2 \<and> name1 \<noteq> name2
               \<longrightarrow> index e1 \<noteq> index e2"
  proof (intro allI impI notI)
    fix name1 name2 e1 e2
    assume h: "?m name1 = Some e1 \<and> ?m name2 = Some e2 \<and> name1 \<noteq> name2" and eq: "index e1 = index e2"
    from h have m1: "?m name1 = Some e1" and m2: "?m name2 = Some e2" by simp_all
    from from_file[OF m1] obtain i1 where
      i1: "tex_name (?fs ! i1) = name1" "e1 = entry_of self ?k ?a (int i1)" by blast
    from from_file[OF m2] obtain i2 where
      i2: "tex_name (?fs ! i2) = name2" "e2 = entry_of self ?k ?a (int i2)" by blast
    have "i1 = i2" using eq i1(2) i2(2) by (simp add: entry_of_simps)
    then show False using i1(1) i2(1) h by simp
  qed
  have each: "\<forall>i < length ?fs. \<exists>e. ?m (tex_name (?fs ! i)) = Some e \<and> index e = int i"
    using own by (simp add: entry_of_simps)
  show ?thesis using run cover apart each by simp
qed

theorem indices_cover_when_identifiers_distinct_witness:
  "TextureAtlasBuilder 16 1024 = Inr example_builder \<and>
   num_textures example_builder five_files = 5 \<and>
   distinct (map tex_name (truncated_files example_builder five_files)) \<and>
   (\<exists>r. create_atlas example_world example_builder five_files = Inr r \<and>
        index ` ran (md_textures (r_metadata r)) = {0, 1, 2, 3, 4})"
proof -
  have n: "1 \<le> num_textures example_builder five_files" by (simp add: num_five_files)
  have ok: "\<forall>f \<in> set (truncated_files example_builder five_files). open_rgba example_world f \<noteq> None"
    unfolding truncated_five_files by (simp add: five_files_def example_world_def)
  have d: "distinct (map tex_name (truncated_files example_builder five_files))"
    unfolding truncated_five_files by (simp add: five_files_def tex_name_examples)
  have s: "{0 ..< (5::int)} = {0, 1, 2, 3, 4}" by auto
  from indices_cover_when_identifiers_distinct[OF example_builder_init _ n ok d]
  show ?thesis using d s by (auto simp add: example_builder_init num_five_files)
qed

text \<open>
  C8. When two files of the (truncated) list decode and have the same identifier, and no
  later file that decodes has it, \<open>create_atlas\<close> returns normally; the entry under the
  identifier is that of the later file; no entry has the index of the earlier file; both
  tiles are in the cells of their own indices; and what is printed is the capacity warning
  (if any), the utilization, and the files that did not decode: nothing about the collision.
\<close>

theorem identifier_collision_overwrites:
  assumes "TextureAtlasBuilder T A = Inr self" and "0 < T"
    and "i < j" and "j < length (truncated_files self fs)"
    and "open_rgba env (truncated_files self fs ! i) = Some ti"
    and "open_rgba env (truncated_files self fs ! j) = Some tj"
    and "tex_name (truncated_files self fs ! i) = tex_name (truncated_files self fs ! j)"
    and "\<forall>l. j < l \<and> l < length (truncated_files self fs) \<and>
             open_rgba env (truncated_files self fs ! l) \<noteq> None
             \<longrightarrow> tex_name (truncated_files self fs ! l) \<noteq> tex_name (truncated_files self fs ! j)"
  shows "\<exists>r. create_atlas env self fs = Inr r \<and>
           (\<exists>e. md_textures (r_metadata r) (tex_name (truncated_files self fs ! j)) = Some e \<and>
                index e = int j \<and>
                position e = ((int j mod md_textures_per_row (r_metadata r)) * T,
                              (int j div md_textures_per_row (r_metadata r)) * T)) \<and>
           (\<forall>name e. md_textures (r_metadata r) name = Some e \<longrightarrow> index e \<noteq> int i) \<and>
           (\<forall>dx dy. 0 \<le> dx \<and> dx < T \<and> 0 \<le> dy \<and> dy < T \<longrightarrow>
              pixel_at (r_atlas r)
                ((int i mod md_textures_per_row (r_metadata r)) * T + dx,
                 (int i div md_textures_per_row (r_metadata r)) * T + dy)
              = Some (img_pix (tile_of env self ti) (dx, dy))) \<and>
           (\<forall>dx dy. 0 \<le> dx \<and> dx < T \<and> 0 \<le> dy \<and> dy < T \<longrightarrow>
              pixel_at (r_atlas r)
                ((int j mod md_textures_per_row (r_metadata r)) * T + dx,
                 (int j div md_textures_per_row (r_metadata r)) * T + dy)
              = Some (img_pix (tile_of env self tj) (dx, dy))) \<and>
           r_log r =
             (if max_textures self < int (length fs)
              then [CapacityWarning (int (length fs)) (max_textures self)] else []) @
             [Utilization (of_int (num_textures self fs)
                            / of_int ((md_textures_per_row (r_metadata r))\<^sup>2) * 100)] @
             map LoadError (filter (\<lambda>f. open_rgba env f = None) (truncated_files self fs))"
proof -
  let ?k = "grid_side self fs" and ?fs = "truncated_files self fs"
  let ?a = "grid_side self fs * texture_size self"
  have T: "texture_size self = T" and cap: "0 \<le> max_textures self"
    using builder_fields[OF assms(1)] by simp_all
  have pos: "0 < texture_size self" using assms(2) T by simp
  have n: "1 \<le> num_textures self fs" using cap assms(4) by (rule nonempty_run)
  have i: "i < length ?fs" using assms(3,4) by simp
  let ?r = "\<lparr>r_metadata = st_metadata (final_state env self fs),
             r_atlas = st_atlas (final_state env self fs),
             r_log = st_log (final_state env self fs)\<rparr>"
  let ?m = "md_textures (st_metadata (final_state env self fs))"
  have run: "create_atlas env self fs = Inr ?r" using n pos by (rule create_atlas_run)
  have "?m (tex_name (?fs ! j)) = Some (entry_of self ?k ?a (int j))"
    by (rule final_last[OF pos n assms(4,6,8)])
  then have later: "\<exists>e. md_textures (r_metadata ?r) (tex_name (?fs ! j)) = Some e \<and>
                index e = int j \<and>
                position e = ((int j mod md_textures_per_row (r_metadata ?r)) * T,
                              (int j div md_textures_per_row (r_metadata ?r)) * T)"
    by (simp add: entry_of_simps final_fields T)
  have earlier: "\<forall>name e. md_textures (r_metadata ?r) name = Some e \<longrightarrow> index e \<noteq> int i"
  proof (intro allI impI notI)
    fix name e assume "md_textures (r_metadata ?r) name = Some e" and eq: "index e = int i"
    then have "?m name = Some e" by simp
    from final_entry[OF pos n this] obtain i' where
      i': "tex_name (?fs ! i') = name" "e = entry_of self ?k ?a (int i')"
        "\<forall>l. i' < l \<and> l < length ?fs \<and> open_rgba env (?fs ! l) \<noteq> None
             \<longrightarrow> tex_name (?fs ! l) \<noteq> name"
      by blast
    have "i' = i" using i'(2) eq by (simp add: entry_of_simps)
    then have "tex_name (?fs ! j) \<noteq> tex_name (?fs ! i)"
      using i'(1,3) assms(3,4,6) by auto
    then show False using assms(7) by simp
  qed
  have tile: "\<forall>dx dy. 0 \<le> dx \<and> dx < T \<and> 0 \<le> dy \<and> dy < T \<longrightarrow>
              pixel_at (r_atlas ?r)
                ((int l mod md_textures_per_row (r_metadata ?r)) * T + dx,
                 (int l div md_textures_per_row (r_metadata ?r)) * T + dy)
              = Some (img_pix (tile_of env self t) (dx, dy))"
    if l: "l < length ?fs" "open_rgba env (?fs ! l) = Some t" for l t
  proof (intro allI impI)
    fix dx dy assume d: "0 \<le> dx \<and> dx < T \<and> 0 \<le> dy \<and> dy < T"
    have "pixel_at (st_atlas (final_state env self fs))
           ((int l mod ?k) * texture_size self + dx, (int l div ?k) * texture_size self + dy)
         = Some (img_pix (tile_of env self t) (dx, dy))"
      using d T by (intro final_pix_tile[OF cap pos n l]) simp_all
    then show "pixel_at (r_atlas ?r)
                ((int l mod md_textures_per_row (r_metadata ?r)) * T + dx,
                 (int l div md_textures_per_row (r_metadata ?r)) * T + dy)
              = Some (img_pix (tile_of env self t) (dx, dy))"
      by (simp add: final_fields T)
  qed
  have log: "r_log ?r =
             (if max_textures self < int (length fs)
              then [CapacityWarning (int (length fs)) (max_textures self)] else []) @
             [Utilization (of_int (num_textures self fs)
                            / of_int ((md_textures_per_row (r_metadata ?r))\<^sup>2) * 100)] @
             map LoadError (filter (\<lambda>f. open_rgba env f = None) ?fs)"
    by (simp add: final_log[OF pos n] start_state_def final_fields)
  show ?thesis using run later earlier tile[OF i assms(5)] tile[OF assms(4,6)] log by blast
qed

theorem identifier_collision_overwrites_witness:
  "TextureAtlasBuilder 16 1024 = Inr example_builder \<and>
   truncated_files example_builder collide_files = [''raw/a.jpg'', ''raw/a.png''] \<and>
   tex_name ''raw/a.jpg'' = tex_name ''raw/a.png'' \<and>
   (\<exists>r e. create_atlas example_world example_builder collide_files = Inr r \<and>
        md_textures (r_metadata r) ''a'' = Some e \<and> index e = 1 \<and> position e = (16, 0) \<and>
        pixel_at (r_atlas r) (0, 0) = Some (255, 0, 0, 255) \<and>
        pixel_at (r_atlas r) (16, 0) = Some (255, 0, 0, 255) \<and>
        r_log r = [Utilization 50])"
proof -
  let ?fs = "truncated_files example_builder collide_files"
  have fs: "?fs = [''raw/a.jpg'', ''raw/a.png'']"
    unfolding truncated_collide_files by (simp add: collide_files_def)
  have j: "1 < length ?fs" unfolding fs by simp
  have ti: "open_rgba example_world (?fs ! 0) = Some red_tile"
    and tj: "open_rgba example_world (?fs ! 1) = Some red_tile"
    unfolding fs by (simp_all add: example_world_def)
  have same: "tex_name (?fs ! 0) = tex_name (?fs ! 1)"
    unfolding fs by (simp add: tex_name_examples)
  have last: "\<forall>l. 1 < l \<and> l < length ?fs \<and> open_rgba example_world (?fs ! l) \<noteq> None
             \<longrightarrow> tex_name (?fs ! l) \<noteq> tex_name (?fs ! 1)"
    unfolding fs by simp
  from identifier_collision_overwrites[OF example_builder_init _ _ j ti tj same last]
  obtain r e where r: "create_atlas example_world example_builder collide_files = Inr r"
    "md_textures (r_metadata r) (tex_name (?fs ! 1)) = Some e" "index e = int 1"
    "position e = ((int 1 mod md_textures_per_row (r_metadata r)) * 16,
                   (int 1 div md_textures_per_row (r_metadata r)) * 16)"
    "\<forall>dx dy. 0 \<le> dx \<and> dx < 16 \<and> 0 \<le> dy \<and> dy < 16 \<longrightarrow>
        pixel_at (r_atlas r)
          ((int 0 mod md_textures_per_row (r_metadata r)) * 16 + dx,
           (int 0 div md_textures_per_row (r_metadata r)) * 16 + dy)
        = Some (img_pix (tile_of example_world example_builder red_tile) (dx, dy))"
    "\<forall>dx dy. 0 \<le> dx \<and> dx < 16 \<and> 0 \<le> dy \<and> dy < 16 \<longrightarrow>
        pixel_at (r_atlas r)
          ((int 1 mod md_textures_per_row (r_metadata r)) * 16 + dx,
           (int 1 div md_textures_per_row (r_metadata r)) * 16 + dy)
        = Some (img_pix (tile_of example_world example_builder red_tile) (dx, dy))"
    "r_log r =
       (if max_textures example_builder < int (length collide_files)
        then [CapacityWarning (int (length collide_files)) (max_textures example_builder)] else []) @
       [Utilization (of_int (num_textures example_builder collide_files)
                      / of_int ((md_textures_per_row (r_metadata r))\<^sup>2) * 100)] @
       map LoadError (filter (\<lambda>f. open_rgba example_world f = None) ?fs)"
    by auto
  have k: "md_textures_per_row (r_metadata r) = 2"
    using r(1) by (auto simp add: collide_files_run final_fields grid_side_collide_files)
  have z: "0 \<le> (0::int) \<and> (0::int) < 16 \<and> 0 \<le> (0::int) \<and> (0::int) < 16" by simp
  have e: "md_textures (r_metadata r) ''a'' = Some e"
    using r(2) unfolding fs by (simp add: tex_name_examples)
  have p: "position e = (16, 0)" using r(4) unfolding k by simp
  have p0: "pixel_at (r_atlas r) (0, 0) = Some (255, 0, 0, 255)"
    using r(5) z unfolding k example_tile by (fastforce simp add: red_tile_def)
  have p1: "pixel_at (r_atlas r) (16, 0) = Some (255, 0, 0, 255)"
    using r(6) z unfolding k example_tile by (fastforce simp add: red_tile_def)
  have l: "r_log r = [Utilization 50]"
    unfolding r(7) k fs num_collide_files
    by (simp add: example_builder_fields collide_files_def example_world_def)
  show ?thesis using r(1,3) e p p0 p1 l same fs
    by (auto simp add: example_builder_init)
qed

end
